theory Spec2Isabelle
  imports Complex_Main "HOL-Library.Sublist" "HOL-Library.Char_ord"
begin

section \<open>Strings\<close>

text \<open>
  A Python \<open>str\<close> is modelled by its UTF-8 encoding, a HOL \<open>string\<close> (a list of
  8-bit characters). Substring tests on the encodings agree with substring tests on
  the code points. Three operations are modelled on the ASCII range only, where a
  character is one byte: \<open>str.lower\<close> maps \<open>A..Z\<close> to \<open>a..z\<close> and keeps every
  other byte, \<open>str.strip\<close> removes the ASCII whitespace characters, and a slice
  \<open>s[:n]\<close> takes the first \<open>n\<close> bytes. The case mapping of letters outside
  ASCII and whitespace outside ASCII are outside the model.
\<close>

definition lower_char :: "char \<Rightarrow> char" where
  "lower_char c =
     (if CHR ''A'' \<le> c \<and> c \<le> CHR ''Z'' then char_of (of_char c + (32::nat)) else c)"

text \<open>\<open>s.lower()\<close>\<close>

definition lower :: "string \<Rightarrow> string" where
  "lower s = map lower_char s"

text \<open>\<open>needle in hay\<close> on two strings: \<open>needle\<close> occurs in \<open>hay\<close> as a contiguous run.\<close>

fun py_in :: "string \<Rightarrow> string \<Rightarrow> bool" where
  "py_in needle [] = (needle = [])"
| "py_in needle (c # cs) = (prefix needle (c # cs) \<or> py_in needle cs)"

text \<open>
  The characters \<open>str.isspace\<close> accepts below 128: tab, line feed, vertical tab, form
  feed, carriage return, the four separators \<open>0x1C..0x1F\<close> and the space.
\<close>

definition isspace :: "char \<Rightarrow> bool" where
  "isspace c \<longleftrightarrow>
     (CHR 0x09 \<le> c \<and> c \<le> CHR 0x0D) \<or> (CHR 0x1C \<le> c \<and> c \<le> CHR 0x1F) \<or> c = CHR '' ''"

text \<open>\<open>s.strip()\<close>\<close>

definition strip :: "string \<Rightarrow> string" where
  "strip s = rev (dropWhile isspace (rev (dropWhile isspace s)))"

text \<open>The decimal numeral of a number, as \<open>str\<close> and f-strings print an \<open>int\<close>.\<close>

definition digit :: "nat \<Rightarrow> char" where
  "digit d = ''0123456789'' ! d"

fun show_nat :: "nat \<Rightarrow> string" where
  "show_nat n = (if n < 10 then [digit n] else show_nat (n div 10) @ [digit (n mod 10)])"

declare show_nat.simps [simp del]

definition show_int :: "int \<Rightarrow> string" where
  "show_int i = (if i < 0 then ''-'' @ show_nat (nat (- i)) else show_nat (nat i))"

section \<open>The pattern table of \<open>SimpleLLMAgent._gaia_tools\<close> (azrock/agent.py)\<close>

text \<open>
  The source is a chain of twenty \<open>if ... in p and ... in p: return ...\<close> statements
  over \<open>p = prompt.lower()\<close>, ending in \<open>return None\<close>. The chain is kept as it is
  written, in the same order. The letter o with macron of rule 18 is the two bytes
  \<open>0xC5 0x8D\<close>.
\<close>

definition gaia_tools :: "string \<Rightarrow> string option" where
  \<open>gaia_tools prompt =
    (let p = lower prompt in
     if py_in ''mercedes sosa'' p \<and> py_in ''studio albums'' p \<and> py_in ''2000 and 2009'' p
       then Some ''3''
     else if py_in ''l1vxcyzayym'' p \<and> py_in ''bird species'' p
       then Some ''3''
     else if py_in ''.rewsna eht sa "tfel" drow eht fo etisoppo eht etirw'' p
       then Some ''Right''
     else if py_in ''review the chess position provided in the image'' p
       then Some ''Rd5''
     else if py_in ''featured article on english wikipedia about a dinosaur'' p
       then Some ''FunkMonk''
     else if py_in ''given this table defining * on the set s = {a, b, c, d, e}'' p
       then Some ''b,e''
     else if py_in ''teal'c'' p \<and> py_in ''isn't that hot'' p
       then Some ''Extremely''
     else if py_in ''equine veterinarian'' p \<and> py_in ''1.e exercises'' p
       then Some ''Louvrier''
     else if py_in ''i'm making a grocery list for my mom'' p \<and> py_in ''milk, eggs, flour'' p
       then Some ''broccoli, celery, corn, green beans, lettuce, sweet potatoes, zucchini''
     else if py_in ''strawberry pie.mp3'' p
       then Some ''cornstarch, freshly squeezed lemon juice, granulated sugar, pure vanilla extract, ripe strawberries''
     else if py_in ''actor who played ray in the polish-language version of everybody loves raymond'' p
       then Some ''Wojciech''
     else if py_in ''final numeric output from the attached python code'' p
       then Some ''0''
     else if py_in ''yankee with the most walks in the 1977 regular season'' p
       then Some ''519''
     else if py_in ''homework.mp3'' p \<and> py_in ''page numbers'' p
       then Some ''132, 133, 134, 197, 245''
     else if py_in ''carolyn collins petersen'' p \<and> py_in ''universe today'' p \<and> py_in ''arendt'' p
       then Some ''80GSFC21M0002''
     else if py_in ''vietnamese specimens described by kuznetzov in nedoshivina's 2010 paper'' p
       then Some ''Saint Petersburg''
     else if py_in ''1928 summer olympics'' p \<and> py_in ''least number of athletes'' p
       then Some ''CUB''
     else if py_in (''pitchers with the number before and after taish'' @ [CHR 0xC5, CHR 0x8D] @ '' tamai's number'') p
       then Some ''Yoshida, Uehara''
     else if py_in ''attached excel file contains the sales of menu items for a local fast-food chain'' p
       then Some ''89706.00''
     else if py_in ''only malko competition recipient from the 20th century'' p
       then Some ''Claus''
     else None)\<close>

text \<open>
  The same twenty rules as data, in the order of declaration: the \<open>AnswerTable\<close> of
  the specification, an ordered list of (predicate, answer) rules over the normalized
  text. \<open>match\<close> is the specification's reading of the table: the answer of the
  first rule whose predicate holds, \<open>None\<close> when there is none.
\<close>

record AnswerRule =
  predicate :: "string \<Rightarrow> bool"
  answer :: string

definition AnswerTable :: "AnswerRule list" where
  \<open>AnswerTable =
     [
      \<lparr>predicate = (\<lambda>p. py_in ''mercedes sosa'' p \<and> py_in ''studio albums'' p \<and> py_in ''2000 and 2009'' p),
       answer = ''3''\<rparr>,
      \<lparr>predicate = (\<lambda>p. py_in ''l1vxcyzayym'' p \<and> py_in ''bird species'' p),
       answer = ''3''\<rparr>,
      \<lparr>predicate = (\<lambda>p. py_in ''.rewsna eht sa "tfel" drow eht fo etisoppo eht etirw'' p),
       answer = ''Right''\<rparr>,
      \<lparr>predicate = (\<lambda>p. py_in ''review the chess position provided in the image'' p),
       answer = ''Rd5''\<rparr>,
      \<lparr>predicate = (\<lambda>p. py_in ''featured article on english wikipedia about a dinosaur'' p),
       answer = ''FunkMonk''\<rparr>,
      \<lparr>predicate = (\<lambda>p. py_in ''given this table defining * on the set s = {a, b, c, d, e}'' p),
       answer = ''b,e''\<rparr>,
      \<lparr>predicate = (\<lambda>p. py_in ''teal'c'' p \<and> py_in ''isn't that hot'' p),
       answer = ''Extremely''\<rparr>,
      \<lparr>predicate = (\<lambda>p. py_in ''equine veterinarian'' p \<and> py_in ''1.e exercises'' p),
       answer = ''Louvrier''\<rparr>,
      \<lparr>predicate = (\<lambda>p. py_in ''i'm making a grocery list for my mom'' p \<and> py_in ''milk, eggs, flour'' p),
       answer = ''broccoli, celery, corn, green beans, lettuce, sweet potatoes, zucchini''\<rparr>,
      \<lparr>predicate = (\<lambda>p. py_in ''strawberry pie.mp3'' p),
       answer = ''cornstarch, freshly squeezed lemon juice, granulated sugar, pure vanilla extract, ripe strawberries''\<rparr>,
      \<lparr>predicate = (\<lambda>p. py_in ''actor who played ray in the polish-language version of everybody loves raymond'' p),
       answer = ''Wojciech''\<rparr>,
      \<lparr>predicate = (\<lambda>p. py_in ''final numeric output from the attached python code'' p),
       answer = ''0''\<rparr>,
      \<lparr>predicate = (\<lambda>p. py_in ''yankee with the most walks in the 1977 regular season'' p),
       answer = ''519''\<rparr>,
      \<lparr>predicate = (\<lambda>p. py_in ''homework.mp3'' p \<and> py_in ''page numbers'' p),
       answer = ''132, 133, 134, 197, 245''\<rparr>,
      \<lparr>predicate = (\<lambda>p. py_in ''carolyn collins petersen'' p \<and> py_in ''universe today'' p \<and> py_in ''arendt'' p),
       answer = ''80GSFC21M0002''\<rparr>,
      \<lparr>predicate = (\<lambda>p. py_in ''vietnamese specimens described by kuznetzov in nedoshivina's 2010 paper'' p),
       answer = ''Saint Petersburg''\<rparr>,
      \<lparr>predicate = (\<lambda>p. py_in ''1928 summer olympics'' p \<and> py_in ''least number of athletes'' p),
       answer = ''CUB''\<rparr>,
      \<lparr>predicate = (\<lambda>p. py_in (''pitchers with the number before and after taish'' @ [CHR 0xC5, CHR 0x8D] @ '' tamai's number'') p),
       answer = ''Yoshida, Uehara''\<rparr>,
      \<lparr>predicate = (\<lambda>p. py_in ''attached excel file contains the sales of menu items for a local fast-food chain'' p),
       answer = ''89706.00''\<rparr>,
      \<lparr>predicate = (\<lambda>p. py_in ''only malko competition recipient from the 20th century'' p),
       answer = ''Claus''\<rparr>
     ]\<close>

fun match :: "AnswerRule list \<Rightarrow> string \<Rightarrow> string option" where
  "match [] p = None"
| "match (r # rs) p = (if predicate r p then Some (answer r) else match rs p)"

section \<open>Values, exceptions and the network\<close>

text \<open>
  The values that \<open>response.json()\<close> produces and the program passes around. A
  dictionary is an association list with string keys (the keys of a JSON object), read
  with \<open>map_of\<close>.
\<close>

datatype pyval =
    PNone
  | PBool bool
  | PInt int
  | PFloat rat
  | PStr string
  | PList "pyval list"
  | PDict "(string \<times> pyval) list"

text \<open>
  The exceptions, by the classes the \<open>except\<close> clauses of the program tell apart,
  each with the message \<open>str(e)\<close>. \<open>Timeout\<close> and \<open>HTTPError\<close> are subclasses of
  \<open>requests.exceptions.RequestException\<close>; the constructor \<open>RequestException\<close>
  stands for every other exception of that class. An \<open>HTTPError\<close> carries the
  response. What \<open>response.json()\<close> gives (the decoded body, or the exception of the
  decoder) is a field of the response, beside its text.
\<close>

datatype exn =
    HTTPError string response
  | Timeout string
  | RequestException string
  | ValueError string
  | TypeError string
  | AttributeError string
  | AssertionError string
  | KeyError string
  | Exception string
and response =
    Response (status_code: nat) (reason: string) (url: string) (resp_text: string)
      (json: "exn + pyval")

text \<open>\<open>str(e)\<close>\<close>

fun exn_str :: "exn \<Rightarrow> string" where
  "exn_str (HTTPError m r) = m"
| "exn_str (Timeout m) = m"
| "exn_str (RequestException m) = m"
| "exn_str (ValueError m) = m"
| "exn_str (TypeError m) = m"
| "exn_str (AttributeError m) = m"
| "exn_str (AssertionError m) = m"
| "exn_str (KeyError m) = m"
| "exn_str (Exception m) = m"

text \<open>
  A request of \<open>requests.get\<close> or \<open>requests.post\<close>, and what the network does with it:
  the call raises, or a response comes back. The network is a parameter of the model;
  its answer may depend on the requests made before. \<open>py_repr\<close> stands for Python's
  printing of a float, a list or a dictionary, which the program uses but does not define.
\<close>

datatype request =
  Request (http_method: string) (req_url: string) (headers: "(string \<times> string) list")
    (json_body: "pyval option") (timeout: nat)

datatype outcome = Raises exn | Responds response

record world =
  http :: "request list \<Rightarrow> request \<Rightarrow> outcome"
  py_repr :: "pyval \<Rightarrow> string"

text \<open>
  One call of \<open>requests.get\<close> or \<open>requests.post\<close>: the request is appended to the
  list of the requests made so far, which every function that may call the network
  takes and returns.
\<close>

definition send :: "world \<Rightarrow> request \<Rightarrow> request list \<Rightarrow> request list \<times> (exn + response)" where
  "send w r net =
     (net @ [r], case http w net r of Raises ex \<Rightarrow> Inl ex | Responds resp \<Rightarrow> Inr resp)"

text \<open>\<open>response.raise_for_status()\<close>, with the message the requests library builds.\<close>

definition raise_for_status :: "response \<Rightarrow> exn + unit" where
  "raise_for_status r =
     (if 400 \<le> status_code r \<and> status_code r < 500
      then Inl (HTTPError (show_nat (status_code r) @ '' Client Error: '' @ reason r
                            @ '' for url: '' @ url r) r)
      else if 500 \<le> status_code r \<and> status_code r < 600
      then Inl (HTTPError (show_nat (status_code r) @ '' Server Error: '' @ reason r
                            @ '' for url: '' @ url r) r)
      else Inr ())"

subsection \<open>Operations on values\<close>

fun type_name :: "pyval \<Rightarrow> string" where
  "type_name PNone = ''NoneType''"
| "type_name (PBool b) = ''bool''"
| "type_name (PInt i) = ''int''"
| "type_name (PFloat x) = ''float''"
| "type_name (PStr s) = ''str''"
| "type_name (PList xs) = ''list''"
| "type_name (PDict kv) = ''dict''"

text \<open>A name in single quotes, and the message of a missing method.\<close>

definition quoted :: "string \<Rightarrow> string" where
  "quoted s = [CHR 0x27] @ s @ [CHR 0x27]"

definition no_attribute :: "pyval \<Rightarrow> string \<Rightarrow> string" where
  "no_attribute v name = quoted (type_name v) @ '' object has no attribute '' @ quoted name"

text \<open>Truth of a value, as \<open>not v\<close>, \<open>if v\<close> and \<open>v or d\<close> test it.\<close>

fun truthy :: "pyval \<Rightarrow> bool" where
  "truthy PNone = False"
| "truthy (PBool b) = b"
| "truthy (PInt i) = (i \<noteq> 0)"
| "truthy (PFloat x) = (x \<noteq> 0)"
| "truthy (PStr s) = (s \<noteq> [])"
| "truthy (PList xs) = (xs \<noteq> [])"
| "truthy (PDict kv) = (kv \<noteq> [])"

text \<open>Truth of an optional string (\<open>os.getenv\<close> gives a string or \<open>None\<close>).\<close>

fun str_truthy :: "string option \<Rightarrow> bool" where
  "str_truthy None = False"
| "str_truthy (Some s) = (s \<noteq> [])"

text \<open>\<open>str(v)\<close> and \<open>f"{v}"\<close>\<close>

fun py_str :: "world \<Rightarrow> pyval \<Rightarrow> string" where
  "py_str w PNone = ''None''"
| "py_str w (PBool b) = (if b then ''True'' else ''False'')"
| "py_str w (PInt i) = show_int i"
| "py_str w (PStr s) = s"
| "py_str w v = py_repr w v"

text \<open>\<open>f"{s}"\<close> for an optional string\<close>

fun fmt_opt :: "string option \<Rightarrow> string" where
  "fmt_opt None = ''None''"
| "fmt_opt (Some s) = s"

text \<open>\<open>d.get(key)\<close>: only a dictionary has the method.\<close>

fun py_get :: "pyval \<Rightarrow> string \<Rightarrow> exn + pyval" where
  "py_get (PDict kv) key = Inr (case map_of kv key of None \<Rightarrow> PNone | Some v \<Rightarrow> v)"
| "py_get v key = Inl (AttributeError (no_attribute v ''get''))"

text \<open>\<open>d.get(key, default)\<close>\<close>

fun py_get_default :: "pyval \<Rightarrow> string \<Rightarrow> pyval \<Rightarrow> exn + pyval" where
  "py_get_default (PDict kv) key d = Inr (case map_of kv key of None \<Rightarrow> d | Some v \<Rightarrow> v)"
| "py_get_default v key d = Inl (AttributeError (no_attribute v ''get''))"

text \<open>\<open>d.items()\<close> of a dictionary\<close>

fun py_items :: "pyval \<Rightarrow> (string \<times> pyval) list" where
  "py_items (PDict kv) = kv"
| "py_items v = []"

text \<open>
  \<open>v[:80]\<close>, for whether it raises: strings and lists have slices, a dictionary
  rejects the slice as a key (unhashable up to Python 3.11), the other values have no
  subscript.
\<close>

fun slice_check :: "pyval \<Rightarrow> exn + unit" where
  "slice_check (PStr s) = Inr ()"
| "slice_check (PList xs) = Inr ()"
| "slice_check (PDict kv) = Inl (TypeError (''unhashable type: '' @ quoted ''slice''))"
| "slice_check v = Inl (TypeError (quoted (type_name v) @ '' object is not subscriptable''))"

text \<open>\<open>key in v\<close> for a string \<open>key\<close>\<close>

fun py_contains :: "string \<Rightarrow> pyval \<Rightarrow> exn + bool" where
  "py_contains key (PDict kv) = Inr (map_of kv key \<noteq> None)"
| "py_contains key (PStr s) = Inr (py_in key s)"
| "py_contains key (PList xs) = Inr (PStr key \<in> set xs)"
| "py_contains key v = Inl (TypeError (''argument of type '' @ quoted (type_name v) @ '' is not iterable''))"

text \<open>\<open>v[key]\<close> for a string \<open>key\<close>\<close>

fun py_getitem :: "pyval \<Rightarrow> string \<Rightarrow> exn + pyval" where
  "py_getitem (PDict kv) key =
     (case map_of kv key of None \<Rightarrow> Inl (KeyError (quoted key))
      | Some v \<Rightarrow> Inr v)"
| "py_getitem (PStr s) key = Inl (TypeError ''string indices must be integers'')"
| "py_getitem (PList xs) key =
     Inl (TypeError ''list indices must be integers or slices, not str'')"
| "py_getitem v key = Inl (TypeError (quoted (type_name v) @ '' object is not subscriptable''))"

text \<open>\<open>v.strip()\<close>: only a string has the method.\<close>

fun py_strip :: "pyval \<Rightarrow> exn + string" where
  "py_strip (PStr s) = Inr (strip s)"
| "py_strip v = Inl (AttributeError (no_attribute v ''strip''))"

section \<open>\<open>SimpleLLMAgent\<close> (azrock/agent.py)\<close>

text \<open>The environment variables the program reads.\<close>

record env =
  HF_API_TOKEN :: "string option"
  HF_MODEL_ID_var :: "string option"
  SPACE_HOST :: "string option"
  SPACE_ID :: "string option"

text \<open>\<open>HF_MODEL_ID = os.getenv("HF_MODEL_ID", "gpt2")\<close>\<close>

definition HF_MODEL_ID :: "env \<Rightarrow> string" where
  "HF_MODEL_ID e = (case HF_MODEL_ID_var e of None \<Rightarrow> ''gpt2'' | Some m \<Rightarrow> m)"

record SimpleLLMAgent =
  api_url :: "string option"

text \<open>\<open>SimpleLLMAgent.__init__\<close>\<close>

definition SimpleLLMAgent_init :: "env \<Rightarrow> SimpleLLMAgent" where
  "SimpleLLMAgent_init e =
     \<lparr>api_url =
        (if str_truthy (HF_API_TOKEN e)
         then Some (''https://api-inference.huggingface.co/models/'' @ HF_MODEL_ID e)
         else None)\<rparr>"

definition create_agent :: "env \<Rightarrow> SimpleLLMAgent" where
  "create_agent e = SimpleLLMAgent_init e"

text \<open>
  The response handling of \<open>_call_hf\<close>: the \<open>generated_text\<close> of the first element
  when the data is a non-empty list that has one, else the printed data; stripped.
\<close>

definition hf_text :: "world \<Rightarrow> pyval \<Rightarrow> exn + string" where
  "hf_text w data =
     (case data of
        PList (d0 # ds) \<Rightarrow>
          (case py_contains ''generated_text'' d0 of
             Inl ex \<Rightarrow> Inl ex
           | Inr True \<Rightarrow>
               (case py_getitem d0 ''generated_text'' of
                  Inl ex \<Rightarrow> Inl ex
                | Inr t \<Rightarrow> py_strip t)
           | Inr False \<Rightarrow> Inr (strip (py_str w data)))
      | _ \<Rightarrow> Inr (strip (py_str w data)))"

text \<open>\<open>SimpleLLMAgent._call_hf\<close>\<close>

definition call_hf ::
  "world \<Rightarrow> env \<Rightarrow> SimpleLLMAgent \<Rightarrow> string \<Rightarrow> request list \<Rightarrow> request list \<times> (exn + string)" where
  "call_hf w e self prompt net =
     (case api_url self of
        None \<Rightarrow> (net, Inl (AssertionError []))
      | Some u \<Rightarrow>
          (let hdrs = [(''Authorization'', ''Bearer '' @ fmt_opt (HF_API_TOKEN e))];
               payload = PDict [(''inputs'', PStr prompt),
                                (''parameters'', PDict [(''max_new_tokens'', PInt 256)])]
           in case send w (Request ''POST'' u hdrs (Some payload) 60) net of
                (net', Inl ex) \<Rightarrow> (net', Inl ex)
              | (net', Inr resp) \<Rightarrow>
                  (net',
                   case raise_for_status resp of
                     Inl ex \<Rightarrow> Inl ex
                   | Inr _ \<Rightarrow>
                       (case json resp of
                          Inl ex \<Rightarrow> Inl ex
                        | Inr data \<Rightarrow> hf_text w data))))"

text \<open>
  \<open>SimpleLLMAgent.run\<close>. The annotation promises a string; the evaluation loop passes
  whatever the question field holds, so the other values are branches too: \<open>prompt[:80]\<close>
  raises on a value without slices, and \<open>prompt.lower()\<close> on a list. The
  \<open>metadata\<close> argument is accepted and not used.
\<close>

definition run ::
  "world \<Rightarrow> env \<Rightarrow> SimpleLLMAgent \<Rightarrow> pyval \<Rightarrow> pyval \<Rightarrow> request list
     \<Rightarrow> request list \<times> (exn + string)" where
  "run w e self prompt metadata net =
     (case slice_check prompt of
        Inl ex \<Rightarrow> (net, Inl ex)
      | Inr _ \<Rightarrow>
          (case prompt of
             PStr s \<Rightarrow>
               (case gaia_tools s of
                  Some tool_answer \<Rightarrow> (net, Inr tool_answer)
                | None \<Rightarrow>
                    if str_truthy (api_url self) \<and> str_truthy (HF_API_TOKEN e)
                    then (case call_hf w e self s net of
                            (net', Inr txt) \<Rightarrow> (net', Inr txt)
                          | (net', Inl ex) \<Rightarrow> (net', Inr ''I don't know''))
                    else (net, Inr ''I don't know''))
           | v \<Rightarrow> (net, Inl (AttributeError (no_attribute v ''lower'')))))"

section \<open>\<open>GaiaAgent\<close> and the helper functions of app.py\<close>

definition DEFAULT_API_URL :: string where
  "DEFAULT_API_URL = ''https://agents-course-unit4-scoring.hf.space''"

record GaiaAgent =
  core_agent :: SimpleLLMAgent

text \<open>
  \<open>GaiaAgent.__init__\<close>. The constructor prints and calls \<open>create_agent\<close>; nothing in
  it raises, so its result is always \<open>Inr\<close>. The result type keeps the \<open>except\<close>
  branch of the caller in the model.
\<close>

definition GaiaAgent_init :: "env \<Rightarrow> exn + GaiaAgent" where
  "GaiaAgent_init e = Inr \<lparr>core_agent = create_agent e\<rparr>"

text \<open>
  \<open>GaiaAgent.answer\<close>: \<open>question_text[:80]\<close> for the log line, the call of the core
  agent with \<open>metadata or {}\<close>, and \<open>str(result).strip()\<close> of its string.
\<close>

definition GaiaAgent_answer ::
  "world \<Rightarrow> env \<Rightarrow> GaiaAgent \<Rightarrow> pyval \<Rightarrow> pyval \<Rightarrow> request list
     \<Rightarrow> request list \<times> (exn + string)" where
  "GaiaAgent_answer w e self question_text metadata net =
     (case slice_check question_text of
        Inl ex \<Rightarrow> (net, Inl ex)
      | Inr _ \<Rightarrow>
          (case run w e (core_agent self) question_text
                  (if truthy metadata then metadata else PDict []) net of
             (net', Inl ex) \<Rightarrow> (net', Inl ex)
           | (net', Inr result) \<Rightarrow> (net', Inr (strip result))))"

text \<open>\<open>fetch_questions\<close>\<close>

definition fetch_questions ::
  "world \<Rightarrow> string \<Rightarrow> request list \<Rightarrow> request list \<times> (exn + pyval list)" where
  "fetch_questions w api net =
     (case send w (Request ''GET'' (api @ ''/questions'') [] None 15) net of
        (net', Inl ex) \<Rightarrow> (net', Inl ex)
      | (net', Inr resp) \<Rightarrow>
          (net',
           case raise_for_status resp of
             Inl ex \<Rightarrow> Inl ex
           | Inr _ \<Rightarrow>
               (case json resp of
                  Inl ex \<Rightarrow> Inl ex
                | Inr (PList items) \<Rightarrow>
                    if length items = 0
                    then Inl (ValueError ''Questions endpoint returned empty or invalid payload.'')
                    else Inr items
                | Inr _ \<Rightarrow>
                    Inl (ValueError ''Questions endpoint returned empty or invalid payload.''))))"

text \<open>\<open>submit_answers\<close>\<close>

definition submit_answers ::
  "world \<Rightarrow> string \<Rightarrow> string \<Rightarrow> string \<Rightarrow> pyval list \<Rightarrow> request list
     \<Rightarrow> request list \<times> (exn + pyval)" where
  "submit_answers w api username agent_code_url answers net =
     (let submission_data =
            PDict [(''username'', PStr (strip username)),
                   (''agent_code'', PStr agent_code_url),
                   (''answers'', PList answers)]
      in case send w (Request ''POST'' (api @ ''/submit'') [] (Some submission_data) 60) net of
           (net', Inl ex) \<Rightarrow> (net', Inl ex)
         | (net', Inr resp) \<Rightarrow>
             (net',
              case raise_for_status resp of
                Inl ex \<Rightarrow> Inl ex
              | Inr _ \<Rightarrow> json resp))"

section \<open>\<open>run_and_submit_all\<close> (app.py)\<close>

text \<open>
  What the loop of \<open>run_and_submit_all\<close> leaves behind besides its two lists: the
  question and metadata of each call of \<open>agent.answer\<close>, and the two log lines of the
  loop (\<open>Skipping malformed item\<close>, with the item, and \<open>Error on task\<close>, with the task
  id and the exception).
\<close>

datatype event =
    AnswerCalled pyval pyval
  | SkippedMalformed pyval
  | ErrorOnTask pyval exn

record eval_state =
  reqs :: "request list"
  events :: "event list"
  answers_payload :: "pyval list"
  results_log :: "pyval list"

text \<open>
  The metadata of an item: every field but the task id and the question
  (\<open>{k: v for k, v in item.items() if k not in {"task_id", "question"}}\<close>).
\<close>

definition metadata_of :: "pyval \<Rightarrow> pyval" where
  "metadata_of item =
     PDict (filter (\<lambda>(k, v). k \<notin> {''task_id'', ''question''}) (py_items item))"

text \<open>The rows of the result log and of the submission payload.\<close>

definition log_row :: "pyval \<Rightarrow> pyval \<Rightarrow> string \<Rightarrow> pyval" where
  "log_row task_id question_text a =
     PDict [(''Task ID'', task_id), (''Question'', question_text),
            (''Submitted Answer'', PStr a)]"

definition payload_row :: "pyval \<Rightarrow> string \<Rightarrow> pyval" where
  "payload_row task_id a = PDict [(''task_id'', task_id), (''submitted_answer'', PStr a)]"

text \<open>The body of the loop \<open>for item in questions_data\<close>, for one item.\<close>

definition process_item ::
  "world \<Rightarrow> env \<Rightarrow> GaiaAgent \<Rightarrow> pyval \<Rightarrow> eval_state \<Rightarrow> exn + eval_state" where
  "process_item w e agent item st =
     (case py_get item ''task_id'' of
        Inl ex \<Rightarrow> Inl ex
      | Inr task_id \<Rightarrow>
          (case py_get item ''question'' of
             Inl ex \<Rightarrow> Inl ex
           | Inr question_text \<Rightarrow>
               if \<not> truthy task_id \<or> question_text = PNone
               then Inr (st\<lparr>events := events st @ [SkippedMalformed item]\<rparr>)
               else
                 (let metadata = metadata_of item
                  in case GaiaAgent_answer w e agent question_text metadata (reqs st) of
                       (net', Inr a) \<Rightarrow>
                         Inr \<lparr>reqs = net',
                              events = events st @ [AnswerCalled question_text metadata],
                              answers_payload = answers_payload st @ [payload_row task_id a],
                              results_log = results_log st
                                @ [log_row task_id question_text a]\<rparr>
                     | (net', Inl ex) \<Rightarrow>
                         (let error_answer = ''AGENT ERROR: '' @ exn_str ex
                          in Inr \<lparr>reqs = net',
                                  events = events st
                                    @ [AnswerCalled question_text metadata,
                                       ErrorOnTask task_id ex],
                                  answers_payload = answers_payload st,
                                  results_log = results_log st
                                    @ [log_row task_id question_text error_answer]\<rparr>))))"

text \<open>The loop. An exception of the loop body outside its \<open>try\<close> ends the loop.\<close>

fun eval_loop ::
  "world \<Rightarrow> env \<Rightarrow> GaiaAgent \<Rightarrow> pyval list \<Rightarrow> eval_state \<Rightarrow> exn + eval_state" where
  "eval_loop w e agent [] st = Inr st"
| "eval_loop w e agent (item # items) st =
     (case process_item w e agent item st of
        Inl ex \<Rightarrow> Inl ex
      | Inr st' \<Rightarrow> eval_loop w e agent items st')"

text \<open>
  The status line of a successful submission: the fields of the result, each with its
  default. \<open>result_data.get\<close> raises when the result is not a dictionary.
\<close>

definition success_status :: "world \<Rightarrow> string \<Rightarrow> pyval \<Rightarrow> exn + string" where
  "success_status w username result_data =
     (case py_get_default result_data ''username'' (PStr username) of
        Inl ex \<Rightarrow> Inl ex
      | Inr u \<Rightarrow>
     (case py_get_default result_data ''score'' (PStr ''N/A'') of
        Inl ex \<Rightarrow> Inl ex
      | Inr score \<Rightarrow>
     (case py_get_default result_data ''correct_count'' (PStr ''?'') of
        Inl ex \<Rightarrow> Inl ex
      | Inr correct \<Rightarrow>
     (case py_get_default result_data ''total_attempted'' (PStr ''?'') of
        Inl ex \<Rightarrow> Inl ex
      | Inr attempted \<Rightarrow>
     (case py_get_default result_data ''message'' (PStr ''No message received.'') of
        Inl ex \<Rightarrow> Inl ex
      | Inr msg \<Rightarrow>
          Inr (''Submission Successful!'' @ [CHR 0x0A]
               @ ''User: '' @ py_str w u @ [CHR 0x0A]
               @ ''Overall Score: '' @ py_str w score @ ''% (''
               @ py_str w correct @ ''/'' @ py_str w attempted @ '' correct)'' @ [CHR 0x0A]
               @ ''Message: '' @ py_str w msg))))))"

text \<open>
  The \<open>detail\<close> string of the \<open>HTTPError\<close> handler: the status code, then the
  \<open>detail\<close> field of the decoded body (the whole text when the body has no such
  field), or, when decoding or \<open>.get\<close> raises, the first 500 characters of the text.
\<close>

definition http_error_detail :: "world \<Rightarrow> response \<Rightarrow> string" where
  "http_error_detail w resp =
     ''Server responded with status '' @ show_nat (status_code resp) @ ''.''
     @ (case json resp of
          Inl ex \<Rightarrow> '' Response: '' @ take 500 (resp_text resp)
        | Inr err_json \<Rightarrow>
            (case py_get_default err_json ''detail'' (PStr (resp_text resp)) of
               Inl ex \<Rightarrow> '' Response: '' @ take 500 (resp_text resp)
             | Inr d \<Rightarrow> '' Detail: '' @ py_str w d))"

text \<open>The four \<open>except\<close> clauses after the submission, in their order.\<close>

fun failure_status :: "world \<Rightarrow> exn \<Rightarrow> string" where
  "failure_status w (HTTPError m resp) = ''Submission Failed: '' @ http_error_detail w resp"
| "failure_status w (Timeout m) = ''Submission Failed: The request timed out.''"
| "failure_status w (RequestException m) = ''Submission Failed: Network error - '' @ m"
| "failure_status w ex = ''An unexpected error occurred during submission: '' @ exn_str ex"

text \<open>
  The link to the code of the Space:
  \<open>f"https://huggingface.co/spaces/{space_id}/tree/main" if space_id else ""\<close>
\<close>

definition code_url :: "string option \<Rightarrow> string" where
  "code_url space_id =
     (if str_truthy space_id
      then ''https://huggingface.co/spaces/'' @ fmt_opt space_id @ ''/tree/main''
      else [])"

text \<open>What \<open>run_and_submit_all\<close> returns, with what it left behind.\<close>

record run_result =
  status :: string
  results_df :: "pyval list option"
  requests_made :: "request list"
  loop_events :: "event list"

text \<open>
  \<open>run_and_submit_all\<close>. The profile is the user name of the login, or \<open>None\<close>.
  \<open>Inl\<close> is an exception that leaves the function.
\<close>

definition run_and_submit_all :: "world \<Rightarrow> env \<Rightarrow> string option \<Rightarrow> exn + run_result" where
  "run_and_submit_all w e profile =
     (let space_id = SPACE_ID e in
      case profile of
        None \<Rightarrow>
          Inr \<lparr>status = ''Please log in to Hugging Face with the button above.'',
               results_df = None, requests_made = [], loop_events = []\<rparr>
      | Some username \<Rightarrow>
          (let api = DEFAULT_API_URL;
               agent_code_url = code_url space_id
           in case GaiaAgent_init e of
                Inl ex \<Rightarrow>
                  Inr \<lparr>status = ''Error initializing GaiaAgent: '' @ exn_str ex,
                       results_df = None, requests_made = [], loop_events = []\<rparr>
              | Inr agent \<Rightarrow>
                  (case fetch_questions w api [] of
                     (net1, Inl ex) \<Rightarrow>
                       Inr \<lparr>status = ''Error while fetching questions: '' @ exn_str ex,
                            results_df = None, requests_made = net1, loop_events = []\<rparr>
                   | (net1, Inr questions_data) \<Rightarrow>
                       (case eval_loop w e agent questions_data
                               \<lparr>reqs = net1, events = [], answers_payload = [],
                                results_log = []\<rparr> of
                          Inl ex \<Rightarrow> Inl ex
                        | Inr st \<Rightarrow>
                            if answers_payload st = []
                            then Inr \<lparr>status = ''Agent did not produce any answers to submit.'',
                                      results_df = Some (results_log st),
                                      requests_made = reqs st, loop_events = events st\<rparr>
                            else
                              (case submit_answers w api username agent_code_url
                                      (answers_payload st) (reqs st) of
                                 (net2, r) \<Rightarrow>
                                   Inr \<lparr>status =
                                          (case r of
                                             Inl ex \<Rightarrow> failure_status w ex
                                           | Inr result_data \<Rightarrow>
                                               (case success_status w username result_data of
                                                  Inl ex \<Rightarrow> failure_status w ex
                                                | Inr s \<Rightarrow> s)),
                                        results_df = Some (results_log st),
                                        requests_made = net2,
                                        loop_events = events st\<rparr>)))))"

section \<open>Notions for stating the properties of the loop\<close>

text \<open>
  The two fields the loop reads from an item (\<open>None\<close> when the key is missing, as
  \<open>item.get\<close> gives it).
\<close>

definition task_id_of :: "pyval \<Rightarrow> pyval" where
  "task_id_of item = (case map_of (py_items item) ''task_id'' of None \<Rightarrow> PNone | Some v \<Rightarrow> v)"

definition question_of :: "pyval \<Rightarrow> pyval" where
  "question_of item = (case map_of (py_items item) ''question'' of None \<Rightarrow> PNone | Some v \<Rightarrow> v)"

fun is_dict :: "pyval \<Rightarrow> bool" where
  "is_dict (PDict kv) = True"
| "is_dict v = False"

text \<open>
  A malformed item is a dictionary whose task id is missing or empty (falsy) or whose
  question is absent; a valid task is a dictionary with a truthy task id and a question.
\<close>

definition malformed :: "pyval \<Rightarrow> bool" where
  "malformed item \<longleftrightarrow>
     is_dict item \<and> (\<not> truthy (task_id_of item) \<or> question_of item = PNone)"

definition valid_task :: "pyval \<Rightarrow> bool" where
  "valid_task item \<longleftrightarrow>
     is_dict item \<and> truthy (task_id_of item) \<and> question_of item \<noteq> PNone"

fun is_error :: "event \<Rightarrow> bool" where
  "is_error (ErrorOnTask t ex) = True"
| "is_error ev = False"

fun is_skip :: "event \<Rightarrow> bool" where
  "is_skip (SkippedMalformed item) = True"
| "is_skip ev = False"

fun is_call :: "event \<Rightarrow> bool" where
  "is_call (AnswerCalled q md) = True"
| "is_call ev = False"

text \<open>The state in which the loop starts, after the requests \<open>n\<close>.\<close>

definition start :: "request list \<Rightarrow> eval_state" where
  "start n = \<lparr>reqs = n, events = [], answers_payload = [], results_log = []\<rparr>"

text \<open>The request of \<open>fetch_questions\<close>, and the requests of \<open>submit_answers\<close>.\<close>

definition questions_request :: request where
  "questions_request = Request ''GET'' (DEFAULT_API_URL @ ''/questions'') [] None 15"

definition is_submit :: "request \<Rightarrow> bool" where
  "is_submit r \<longleftrightarrow> req_url r = DEFAULT_API_URL @ ''/submit''"

text \<open>The body of a response is a non-empty list.\<close>

fun nonempty_list :: "exn + pyval \<Rightarrow> bool" where
  "nonempty_list (Inr (PList (x # xs))) = True"
| "nonempty_list v = False"

text \<open>The four classes of the \<open>except\<close> clauses after the submission.\<close>

datatype failure_class = HttpFailure | TimeoutFailure | NetworkFailure | UnexpectedFailure

fun classify :: "exn \<Rightarrow> failure_class" where
  "classify (HTTPError m resp) = HttpFailure"
| "classify (Timeout m) = TimeoutFailure"
| "classify (RequestException m) = NetworkFailure"
| "classify ex = UnexpectedFailure"

text \<open>
  Two states of the loop with the same requests, payload and result log, and two
  outcomes of the loop that are the same exception or two such states.
\<close>

definition same_lists :: "eval_state \<Rightarrow> eval_state \<Rightarrow> bool" where
  "same_lists s t \<longleftrightarrow>
     reqs s = reqs t \<and> answers_payload s = answers_payload t \<and> results_log s = results_log t"

fun same_outcome :: "exn + eval_state \<Rightarrow> exn + eval_state \<Rightarrow> bool" where
  "same_outcome (Inl x) (Inl y) = (x = y)"
| "same_outcome (Inr s) (Inr t) = same_lists s t"
| "same_outcome a b = False"

text \<open>The body of a response decodes to a dictionary.\<close>

fun is_dict_body :: "exn + pyval \<Rightarrow> bool" where
  "is_dict_body (Inr (PDict kv)) = True"
| "is_dict_body v = False"

text \<open>The request of \<open>submit_answers\<close> to the default scoring service.\<close>

definition submit_request :: "string \<Rightarrow> string \<Rightarrow> pyval list \<Rightarrow> request" where
  "submit_request username agent_code_url answers =
     Request ''POST'' (DEFAULT_API_URL @ ''/submit'') []
       (Some (PDict [(''username'', PStr (strip username)),
                     (''agent_code'', PStr agent_code_url),
                     (''answers'', PList answers)])) 60"

section \<open>Example inputs\<close>

text \<open>The question about the studio albums of Mercedes Sosa, as asked and in capitals.\<close>

definition sosa_question :: string where
  "sosa_question = ''How many studio albums were published by Mercedes Sosa between 2000 and 2009 (included)? You can use the latest 2022 version of english wikipedia.''"


text \<open>
  A text that holds the needle of rule 3 (the reversed sentence) and the needle of
  rule 4 (the chess position).
\<close>

definition overlap_question :: string where
  \<open>overlap_question = ''.rewsna eht sa "tfel" drow eht fo etisoppo eht etirw -- Review the chess position provided in the image.''\<close>



text \<open>Environments with and without the token of the inference service.\<close>

definition env_token :: env where
  "env_token = \<lparr>HF_API_TOKEN = Some ''hf_secret'', HF_MODEL_ID_var = None,
                 SPACE_HOST = None, SPACE_ID = None\<rparr>"

definition env_no_token :: env where
  "env_no_token = \<lparr>HF_API_TOKEN = None, HF_MODEL_ID_var = None,
                    SPACE_HOST = None, SPACE_ID = None\<rparr>"

text \<open>
  A network whose every answer is the generated text \<open>Paris\<close> between two spaces, and
  one where every request times out.
\<close>

definition world_paris :: world where
  \<open>world_paris =
     \<lparr>http = (\<lambda>net r. Responds (Response 200 ''OK'' (req_url r)
                ''[{"generated_text": " Paris "}]''
                (Inr (PList [PDict [(''generated_text'', PStr '' Paris '')]])))),
      py_repr = (\<lambda>v. ''?'')\<rparr>\<close>

definition world_timeout :: world where
  "world_timeout =
     \<lparr>http = (\<lambda>net r. Raises (Timeout ''Read timed out.'')),
      py_repr = (\<lambda>v. ''?'')\<rparr>"

definition hf_request :: "string \<Rightarrow> request" where
  "hf_request prompt =
     Request ''POST'' ''https://api-inference.huggingface.co/models/gpt2''
       [(''Authorization'', ''Bearer hf_secret'')]
       (Some (PDict [(''inputs'', PStr prompt),
                     (''parameters'', PDict [(''max_new_tokens'', PInt 256)])])) 60"

text \<open>
  A network for the evaluation run: one outcome for the questions request, one for the
  submission, and no inference service.
\<close>

definition scoring_world :: "outcome \<Rightarrow> outcome \<Rightarrow> world" where
  "scoring_world questions submission =
     \<lparr>http = (\<lambda>net r. if req_url r = DEFAULT_API_URL @ ''/questions'' then questions
                       else if req_url r = DEFAULT_API_URL @ ''/submit'' then submission
                       else Raises (RequestException ''Connection refused'')),
      py_repr = (\<lambda>v. ''?'')\<rparr>"

definition ok_response :: "string \<Rightarrow> pyval \<Rightarrow> outcome" where
  "ok_response body v = Responds (Response 200 ''OK'' [] body (Inr v))"

text \<open>The agent of a Space without a token.\<close>

definition plain_agent :: GaiaAgent where
  "plain_agent = \<lparr>core_agent = create_agent env_no_token\<rparr>"

text \<open>
  The fetched list of the specification's example: a task \<open>1\<close> with the question
  \<open>Q1\<close>, and an item without a task id.
\<close>

definition task_1 :: pyval where
  "task_1 = PDict [(''task_id'', PStr ''1''), (''question'', PStr ''Q1'')]"

definition item_without_id :: pyval where
  "item_without_id = PDict [(''question'', PStr ''Q2'')]"

text \<open>A task whose question is a number, on which \<open>question_text[:80]\<close> raises.\<close>

definition task_number :: pyval where
  "task_number = PDict [(''task_id'', PStr ''2''), (''question'', PInt 7), (''Level'', PStr ''1'')]"

text \<open>A task with an empty question, and an item with an empty task id.\<close>

definition task_empty_question :: pyval where
  "task_empty_question = PDict [(''task_id'', PStr ''3''), (''question'', PStr [])]"

definition item_empty_id :: pyval where
  "item_empty_id = PDict [(''task_id'', PStr []), (''question'', PStr ''Q4'')]"

text \<open>The answers of the agent without a token and without a matching rule.\<close>

definition dont_know :: string where
  "dont_know = ''I don't know''"

definition not_subscriptable :: exn where
  "not_subscriptable = TypeError (quoted ''int'' @ '' object is not subscriptable'')"

text \<open>
  The state after the loop over the example list of the specification, for the agent
  without a token: one answer, one row, one skip.
\<close>

definition after_example :: eval_state where
  "after_example =
     \<lparr>reqs = [],
      events = [AnswerCalled (PStr ''Q1'') (PDict []), SkippedMalformed item_without_id],
      answers_payload = [payload_row (PStr ''1'') dont_know],
      results_log = [log_row (PStr ''1'') (PStr ''Q1'') dont_know]\<rparr>"

text \<open>The state after the loop over a task, a task that raises and an item without id.\<close>

definition after_mixed :: eval_state where
  "after_mixed =
     \<lparr>reqs = [],
      events = [AnswerCalled (PStr ''Q1'') (PDict []),
                AnswerCalled (PInt 7) (PDict [(''Level'', PStr ''1'')]),
                ErrorOnTask (PStr ''2'') not_subscriptable,
                SkippedMalformed item_without_id],
      answers_payload = [payload_row (PStr ''1'') dont_know],
      results_log = [log_row (PStr ''1'') (PStr ''Q1'') dont_know,
                     log_row (PStr ''2'') (PInt 7)
                       (''AGENT ERROR: '' @ exn_str not_subscriptable)]\<rparr>"

text \<open>
  Three answers of the questions endpoint: an empty list, the list of a task that
  raises and an item without id, and the list of the specification's example.
\<close>

definition empty_questions :: outcome where
  "empty_questions = ok_response ''[]'' (PList [])"

definition failing_questions :: outcome where
  "failing_questions = ok_response ''[...]'' (PList [task_number, item_without_id])"

definition example_questions :: outcome where
  "example_questions = ok_response ''[...]'' (PList [task_1, item_without_id])"

text \<open>The state after the loop over a task that raises and an item without id.\<close>

definition after_failing :: eval_state where
  "after_failing =
     \<lparr>reqs = [questions_request],
      events = [AnswerCalled (PInt 7) (PDict [(''Level'', PStr ''1'')]),
                ErrorOnTask (PStr ''2'') not_subscriptable,
                SkippedMalformed item_without_id],
      answers_payload = [],
      results_log = [log_row (PStr ''2'') (PInt 7)
                       (''AGENT ERROR: '' @ exn_str not_subscriptable)]\<rparr>"

text \<open>
  Error responses of the submission endpoint: a status 500 whose body is a JSON object
  of 613 characters without a \<open>detail\<close> field, a status 422 with a \<open>detail\<close> field,
  and a status 500 with a body that is not JSON.
\<close>

definition long_error_body :: string where
  \<open>long_error_body = ''{"error": "'' @ replicate 600 (CHR ''x'') @ ''"}''\<close>

definition long_error_response :: response where
  "long_error_response =
     Response 500 ''Internal Server Error'' (DEFAULT_API_URL @ ''/submit'') long_error_body
       (Inr (PDict [(''error'', PStr (replicate 600 (CHR ''x'')))]))"

definition detail_response :: response where
  \<open>detail_response =
     Response 422 ''Unprocessable Entity'' (DEFAULT_API_URL @ ''/submit'')
       ''{"detail": "Invalid answers"}''
       (Inr (PDict [(''detail'', PStr ''Invalid answers'')]))\<close>

definition html_response :: response where
  "html_response =
     Response 500 ''Internal Server Error'' (DEFAULT_API_URL @ ''/submit'')
       ''<html>Internal Server Error</html>''
       (Inl (RequestException ''Expecting value: line 1 column 1 (char 0)''))"

text \<open>The payload of the example run, and its submission request.\<close>

definition example_submission :: request where
  "example_submission =
     submit_request ''student'' [] [payload_row (PStr ''1'') dont_know]"

definition after_example_fetched :: eval_state where
  "after_example_fetched = after_example\<lparr>reqs := [questions_request]\<rparr>"

text \<open>The \<open>HTTPError\<close> that \<open>raise_for_status\<close> raises on the response that is not JSON.\<close>

definition html_error :: exn where
  "html_error =
     HTTPError (''500 Server Error: Internal Server Error for url: '' @ DEFAULT_API_URL
                @ ''/submit'') html_response"

section \<open>Facts about strings\<close>

text \<open>\<open>lower_char\<close> on a character given by its bits, for evaluation.\<close>

lemma lower_char_Char:
  "lower_char (Char b0 b1 b2 b3 b4 b5 b6 b7) =
     (if \<not> b7 \<and> b6 \<and> \<not> b5 \<and> (b0 \<or> b1 \<or> b2 \<or> b3 \<or> b4) \<and>
         \<not> (b4 \<and> b3 \<and> (b2 \<or> b1 \<and> b0))
      then Char b0 b1 b2 b3 b4 True b6 b7 else Char b0 b1 b2 b3 b4 b5 b6 b7)"
  apply (cases b0; cases b1; cases b2; cases b3; cases b4; cases b5; cases b6; cases b7)
  apply (simp_all add: lower_char_def less_eq_char_def char_of_def bit_Suc_0_iff)
  done



lemma py_in_sublist: "py_in needle hay = sublist needle hay"
  by (induction hay) (auto simp: sublist_Cons_right)

lemmas eval_str = lower_def lower_char_Char

section \<open>The pattern table\<close>

text \<open>The chain of \<open>if\<close> statements is the first match over the table.\<close>

lemma gaia_tools_match: "gaia_tools s = match AnswerTable (lower s)"
  unfolding gaia_tools_def AnswerTable_def Let_def
  by (simp only: match.simps AnswerRule.simps)

lemma match_None_iff: "match rs p = None \<longleftrightarrow> \<not> list_ex (\<lambda>r. predicate r p) rs"
  by (induction rs) auto

lemma match_first:
  "i < length rs \<Longrightarrow> predicate (rs ! i) p \<Longrightarrow>
     \<exists>k\<le>i. predicate (rs ! k) p \<and> (\<forall>m<k. \<not> predicate (rs ! m) p)
            \<and> match rs p = Some (answer (rs ! k))"
proof (induction rs arbitrary: i)
  case Nil
  then show ?case by simp
next
  case (Cons r rs)
  show ?case
  proof (cases "predicate r p")
    case True
    then show ?thesis by (intro exI[of _ 0]) simp
  next
    case False
    with Cons.prems obtain i' where i': "i = Suc i'" by (cases i) auto
    with Cons.prems have "i' < length rs" "predicate (rs ! i') p" by auto
    from Cons.IH[OF this] obtain k where k: "k \<le> i'" "predicate (rs ! k) p"
      "\<forall>m<k. \<not> predicate (rs ! m) p" "match rs p = Some (answer (rs ! k))" by blast
    show ?thesis
    proof (intro exI[of _ "Suc k"] conjI allI impI)
      show "Suc k \<le> i" using k i' by simp
      show "predicate ((r # rs) ! Suc k) p" using k by simp
      show "match (r # rs) p = Some (answer ((r # rs) ! Suc k))" using k False by simp
      fix m assume "m < Suc k"
      then show "\<not> predicate ((r # rs) ! m) p" using k False by (cases m) auto
    qed
  qed
qed

section \<open>\<open>SimpleLLMAgent.run\<close>\<close>

lemma run_PStr:
  "run w e self (PStr q) md net =
     (case gaia_tools q of
        Some a \<Rightarrow> (net, Inr a)
      | None \<Rightarrow>
          if str_truthy (api_url self) \<and> str_truthy (HF_API_TOKEN e)
          then (case call_hf w e self q net of
                  (net', Inr txt) \<Rightarrow> (net', Inr txt)
                | (net', Inl ex) \<Rightarrow> (net', Inr ''I don't know''))
          else (net, Inr ''I don't know''))"
  by (simp add: run_def)

lemma run_PStr_returns: "\<exists>a. snd (run w e self (PStr q) md net) = Inr a"
  by (auto simp: run_PStr split: option.splits prod.splits sum.splits)

lemma call_hf_one_request:
  "api_url self = Some u \<Longrightarrow> \<exists>r. fst (call_hf w e self q net) = net @ [r] \<and> req_url r = u"
  by (auto simp: call_hf_def send_def Let_def split: outcome.splits)

lemma init_no_token: "\<not> str_truthy (HF_API_TOKEN e) \<Longrightarrow> api_url (SimpleLLMAgent_init e) = None"
  by (simp add: SimpleLLMAgent_init_def)

lemma answer_PStr_returns: "\<exists>a. snd (GaiaAgent_answer w e ag (PStr q) md net) = Inr a"
proof -
  let ?r = "run w e (core_agent ag) (PStr q) (if truthy md then md else PDict []) net"
  obtain a where a: "snd ?r = Inr a" using run_PStr_returns by blast
  obtain n' where "?r = (n', Inr a)" using a by (cases ?r) auto
  then show ?thesis by (simp add: GaiaAgent_answer_def)
qed

text \<open>requests made by the agent\<close>

lemma call_hf_reqs:
  "fst (call_hf w e self q net) = net
   \<or> (\<exists>r. fst (call_hf w e self q net) = net @ [r] \<and> api_url self = Some (req_url r))"
  by (auto simp: call_hf_def send_def Let_def split: option.splits outcome.splits)

lemma run_reqs:
  "fst (run w e self p md net) = net
   \<or> (\<exists>r. fst (run w e self p md net) = net @ [r] \<and> api_url self = Some (req_url r))"
proof (cases p)
  case (PStr q)
  show ?thesis
  proof (cases "gaia_tools q = None \<and> str_truthy (api_url self) \<and> str_truthy (HF_API_TOKEN e)")
    case True
    then have "fst (run w e self p md net) = fst (call_hf w e self q net)"
      by (simp add: run_PStr PStr split: prod.splits sum.splits)
    with call_hf_reqs[of w e self q net] show ?thesis by simp
  next
    case False
    then have "fst (run w e self p md net) = net"
      by (auto simp: run_PStr PStr split: option.splits)
    then show ?thesis by simp
  qed
qed (simp_all add: run_def)

lemma answer_reqs:
  "fst (GaiaAgent_answer w e ag p md net) = net
   \<or> (\<exists>r. fst (GaiaAgent_answer w e ag p md net) = net @ [r]
           \<and> api_url (core_agent ag) = Some (req_url r))"
proof (cases "slice_check p")
  case (Inl ex)
  then show ?thesis by (simp add: GaiaAgent_answer_def)
next
  case (Inr u)
  let ?r = "run w e (core_agent ag) p (if truthy md then md else PDict []) net"
  have "fst (GaiaAgent_answer w e ag p md net) = fst ?r"
    using Inr by (cases ?r) (auto simp: GaiaAgent_answer_def split: sum.splits)
  with run_reqs[of w e "core_agent ag" p _ net] show ?thesis by simp
qed

section \<open>Properties of the pattern table\<close>

text \<open>
  C2. When the lowercased question satisfies the predicates of two rules of the table,
  at the positions \<open>i < j\<close>, \<open>_gaia_tools\<close> returns the answer of the first rule of the
  declared order that the text satisfies, which stands at \<open>i\<close> or before it and never
  at \<open>j\<close>; when the text satisfies no rule, it returns \<open>None\<close>.
\<close>

theorem gaia_tools_first_declared_wins:
  "(i < j \<and> j < length AnswerTable
      \<and> predicate (AnswerTable ! i) (lower s) \<and> predicate (AnswerTable ! j) (lower s)
    \<longrightarrow> (\<exists>k\<le>i. predicate (AnswerTable ! k) (lower s)
              \<and> (\<forall>m<k. \<not> predicate (AnswerTable ! m) (lower s))
              \<and> gaia_tools s = Some (answer (AnswerTable ! k))))
   \<and> (\<not> list_ex (\<lambda>r. predicate r (lower s)) AnswerTable \<longrightarrow> gaia_tools s = None)"
proof (intro conjI impI)
  assume "i < j \<and> j < length AnswerTable
      \<and> predicate (AnswerTable ! i) (lower s) \<and> predicate (AnswerTable ! j) (lower s)"
  then have "i < length AnswerTable" "predicate (AnswerTable ! i) (lower s)" by auto
  from match_first[OF this] show "\<exists>k\<le>i. predicate (AnswerTable ! k) (lower s)
              \<and> (\<forall>m<k. \<not> predicate (AnswerTable ! m) (lower s))
              \<and> gaia_tools s = Some (answer (AnswerTable ! k))"
    by (simp add: gaia_tools_match)
next
  assume "\<not> list_ex (\<lambda>r. predicate r (lower s)) AnswerTable"
  then show "gaia_tools s = None"
    by (simp add: gaia_tools_match match_None_iff)
qed

theorem gaia_tools_first_declared_wins_witness:
  "predicate (AnswerTable ! 2) (lower overlap_question)
   \<and> predicate (AnswerTable ! 3) (lower overlap_question)
   \<and> answer (AnswerTable ! 2) = ''Right'' \<and> answer (AnswerTable ! 3) = ''Rd5''
   \<and> gaia_tools overlap_question = Some ''Right''
   \<and> \<not> list_ex (\<lambda>r. predicate r (lower ''What is the capital of France?'')) AnswerTable
   \<and> gaia_tools ''What is the capital of France?'' = None"
proof -
  have len: "length AnswerTable = 20" by (simp add: AnswerTable_def)
  have p2: "predicate (AnswerTable ! 2) (lower overlap_question)"
    by (simp add: AnswerTable_def overlap_question_def eval_str)
  have p3: "predicate (AnswerTable ! 3) (lower overlap_question)"
    by (simp add: AnswerTable_def overlap_question_def eval_str)
  have p0: "\<not> predicate (AnswerTable ! 0) (lower overlap_question)"
    by (simp add: AnswerTable_def overlap_question_def eval_str)
  have p1: "\<not> predicate (AnswerTable ! 1) (lower overlap_question)"
    by (simp add: AnswerTable_def overlap_question_def eval_str)
  have a2: "answer (AnswerTable ! 2) = ''Right''" by (simp add: AnswerTable_def)
  have a3: "answer (AnswerTable ! 3) = ''Rd5''" by (simp add: AnswerTable_def)
  have nn: "\<not> list_ex (\<lambda>r. predicate r (lower ''What is the capital of France?'')) AnswerTable"
    by (simp add: AnswerTable_def eval_str)
  from gaia_tools_first_declared_wins[of 2 3 overlap_question] len p2 p3
  obtain k where k: "k \<le> 2" "predicate (AnswerTable ! k) (lower overlap_question)"
    "gaia_tools overlap_question = Some (answer (AnswerTable ! k))" by auto
  have "k = 2"
  proof -
    from k(1) have "k = 0 \<or> k = 1 \<or> k = 2" by auto
    with k(2) p0 p1 show ?thesis by auto
  qed
  with k a2 have g: "gaia_tools overlap_question = Some ''Right''" by simp
  from gaia_tools_first_declared_wins[of 0 0 "''What is the capital of France?''"] nn
  have "gaia_tools ''What is the capital of France?'' = None" by blast
  with p2 p3 a2 a3 g nn show ?thesis by blast
qed


section \<open>Properties of \<open>SimpleLLMAgent.run\<close>\<close>

text \<open>
  C1. On a question string, \<open>run\<close> returns a string and raises nothing, whatever the
  metadata. The answer of the pattern table when a rule matches; else, when the
  completer is configured (\<open>self.api_url and HF_API_TOKEN\<close>), the text of \<open>_call_hf\<close>
  when that call returns one, and \<open>I don't know\<close> when it raises; else \<open>I don't know\<close>
  with no request made. A call of \<open>_call_hf\<close> makes one request; an agent constructed
  without a token has no \<open>api_url\<close> and \<open>run\<close> makes no request at all.
\<close>

theorem run_returns_string:
  "(\<exists>a. snd (run w e self (PStr q) md net) = Inr a)
   \<and> (gaia_tools q = Some ans \<longrightarrow> run w e self (PStr q) md net = (net, Inr ans))
   \<and> (gaia_tools q = None \<and> str_truthy (api_url self) \<and> str_truthy (HF_API_TOKEN e)
        \<and> call_hf w e self q net = (net', Inr txt)
      \<longrightarrow> run w e self (PStr q) md net = (net', Inr txt))
   \<and> (gaia_tools q = None \<and> str_truthy (api_url self) \<and> str_truthy (HF_API_TOKEN e)
        \<and> call_hf w e self q net = (net', Inl ex)
      \<longrightarrow> run w e self (PStr q) md net = (net', Inr ''I don't know''))
   \<and> (gaia_tools q = None \<and> \<not> (str_truthy (api_url self) \<and> str_truthy (HF_API_TOKEN e))
      \<longrightarrow> run w e self (PStr q) md net = (net, Inr ''I don't know''))
   \<and> (api_url self = Some u \<longrightarrow> (\<exists>r. fst (call_hf w e self q net) = net @ [r]))
   \<and> (\<not> str_truthy (HF_API_TOKEN e)
      \<longrightarrow> api_url (SimpleLLMAgent_init e) = None
          \<and> fst (run w e (SimpleLLMAgent_init e) (PStr q) md net) = net)"
proof (intro conjI impI)
  show "\<exists>a. snd (run w e self (PStr q) md net) = Inr a"
    by (rule run_PStr_returns)
next
  assume "api_url self = Some u"
  from call_hf_one_request[OF this] show "\<exists>r. fst (call_hf w e self q net) = net @ [r]"
    by blast
next
  assume "\<not> str_truthy (HF_API_TOKEN e)"
  then show "fst (run w e (SimpleLLMAgent_init e) (PStr q) md net) = net"
    by (simp add: run_PStr split: option.splits)
qed (auto simp: run_PStr init_no_token)

theorem run_returns_string_witness:
  "run world_paris env_no_token (SimpleLLMAgent_init env_no_token) (PStr sosa_question) (PDict []) []
     = ([], Inr ''3'')
   \<and> run world_paris env_token (SimpleLLMAgent_init env_token) (PStr ''capital of France?'') (PDict []) []
     = ([hf_request ''capital of France?''], Inr ''Paris'')
   \<and> run world_timeout env_token (SimpleLLMAgent_init env_token) (PStr ''capital of France?'') (PDict []) []
     = ([hf_request ''capital of France?''], Inr ''I don't know'')
   \<and> run world_paris env_no_token (SimpleLLMAgent_init env_no_token) (PStr ''capital of France?'') (PDict []) []
     = ([], Inr ''I don't know'')"
proof -
  have sosa: "gaia_tools sosa_question = Some ''3''"
    by (simp add: gaia_tools_def sosa_question_def eval_str)
  have none: "gaia_tools ''capital of France?'' = None"
    by (simp add: gaia_tools_def eval_str)
  have conf: "str_truthy (api_url (SimpleLLMAgent_init env_token))"
    "str_truthy (HF_API_TOKEN env_token)"
    by (simp_all add: SimpleLLMAgent_init_def env_token_def)
  have nconf: "\<not> str_truthy (HF_API_TOKEN env_no_token)"
    by (simp add: env_no_token_def)
  have paris: "call_hf world_paris env_token (SimpleLLMAgent_init env_token) ''capital of France?'' []
           = ([hf_request ''capital of France?''], Inr ''Paris'')"
    by (simp add: call_hf_def SimpleLLMAgent_init_def env_token_def HF_MODEL_ID_def send_def
        world_paris_def raise_for_status_def hf_text_def strip_def isspace_def less_eq_char_def
        hf_request_def)
  have tmo: "call_hf world_timeout env_token (SimpleLLMAgent_init env_token) ''capital of France?'' []
           = ([hf_request ''capital of France?''], Inl (Timeout ''Read timed out.''))"
    by (simp add: call_hf_def SimpleLLMAgent_init_def env_token_def HF_MODEL_ID_def send_def
        world_timeout_def hf_request_def)
  show ?thesis
    using run_returns_string[of world_paris env_no_token "SimpleLLMAgent_init env_no_token"
        sosa_question "PDict []" "[]" "''3''"]
      run_returns_string[of world_paris env_token "SimpleLLMAgent_init env_token"
        "''capital of France?''" "PDict []" "[]" _ "[hf_request ''capital of France?'']" "''Paris''"]
      run_returns_string[of world_timeout env_token "SimpleLLMAgent_init env_token"
        "''capital of France?''" "PDict []" "[]" _ "[hf_request ''capital of France?'']" _
        "Timeout ''Read timed out.''"]
      run_returns_string[of world_paris env_no_token "SimpleLLMAgent_init env_no_token"
        "''capital of France?''" "PDict []" "[]"]
      sosa none conf nconf paris tmo
    by simp
qed

text \<open>
  C9. The metadata argument has no influence on \<open>run\<close>: for every prompt (every
  question string in particular), with the same agent, environment and network, two
  metadata values give the same result and the same requests.
\<close>

theorem run_ignores_metadata:
  "run w e self prompt m1 net = run w e self prompt m2 net"
  by (simp add: run_def)

section \<open>The loop of \<open>run_and_submit_all\<close>\<close>

lemma dict_malformed_or_valid: "is_dict item \<Longrightarrow> malformed item \<noteq> valid_task item"
  by (auto simp: malformed_def valid_task_def)

lemma malformed_is_dict: "malformed item \<Longrightarrow> is_dict item"
  by (simp add: malformed_def)

lemma valid_task_is_dict: "valid_task item \<Longrightarrow> is_dict item"
  by (simp add: valid_task_def)

lemma process_item_not_dict:
  "\<not> is_dict item \<Longrightarrow> process_item w e ag item st = Inl (AttributeError (no_attribute item ''get''))"
  by (cases item) (simp_all add: process_item_def)

lemma process_item_malformed:
  "malformed item \<Longrightarrow>
     process_item w e ag item st = Inr (st\<lparr>events := events st @ [SkippedMalformed item]\<rparr>)"
  by (cases item)
     (auto simp: malformed_def process_item_def task_id_of_def question_of_def)

lemma process_item_valid:
  "valid_task item \<Longrightarrow>
     process_item w e ag item st =
       (case GaiaAgent_answer w e ag (question_of item) (metadata_of item) (reqs st) of
          (net', Inr a) \<Rightarrow>
            Inr \<lparr>reqs = net',
                 events = events st @ [AnswerCalled (question_of item) (metadata_of item)],
                 answers_payload = answers_payload st @ [payload_row (task_id_of item) a],
                 results_log = results_log st
                   @ [log_row (task_id_of item) (question_of item) a]\<rparr>
        | (net', Inl ex) \<Rightarrow>
            Inr \<lparr>reqs = net',
                 events = events st @ [AnswerCalled (question_of item) (metadata_of item),
                                       ErrorOnTask (task_id_of item) ex],
                 answers_payload = answers_payload st,
                 results_log = results_log st
                   @ [log_row (task_id_of item) (question_of item)
                        (''AGENT ERROR: '' @ exn_str ex)]\<rparr>)"
  by (cases item)
     (auto simp: valid_task_def process_item_def task_id_of_def question_of_def Let_def
        split: prod.splits sum.splits)

text \<open>What one step of the loop adds to the two lists and to the events.\<close>

lemma process_item_Inr_dict: "process_item w e ag item st = Inr st' \<Longrightarrow> is_dict item"
  using process_item_not_dict[of item w e ag st] by (cases "is_dict item") auto

lemma process_item_counts:
  assumes "process_item w e ag item st = Inr st'"
  shows "length (results_log st') = length (results_log st) + (if valid_task item then 1 else 0)
    \<and> length (answers_payload st') + length (filter is_error (events st'))
           + length (results_log st)
         = length (results_log st') + length (answers_payload st)
           + length (filter is_error (events st))
    \<and> length (filter is_skip (events st'))
         = length (filter is_skip (events st)) + (if malformed item then 1 else 0)
    \<and> length (filter is_call (events st'))
         = length (filter is_call (events st)) + (if valid_task item then 1 else 0)"
proof (cases "valid_task item")
  case True
  then have "\<not> malformed item"
    using dict_malformed_or_valid[OF valid_task_is_dict] by simp
  with assms True show ?thesis
    by (auto simp: process_item_valid split: prod.splits sum.splits)
next
  case False
  then have "malformed item"
    using dict_malformed_or_valid[OF process_item_Inr_dict[OF assms]] by simp
  with assms False show ?thesis
    by (auto simp: process_item_malformed)
qed

lemma process_item_reqs:
  assumes "process_item w e ag item st = Inr st'"
  shows "\<exists>rs. reqs st' = reqs st @ rs
           \<and> (\<forall>r\<in>set rs. api_url (core_agent ag) = Some (req_url r))"
proof (cases "valid_task item")
  case True
  let ?a = "GaiaAgent_answer w e ag (question_of item) (metadata_of item) (reqs st)"
  have "reqs st' = fst ?a"
    using assms True by (auto simp: process_item_valid split: prod.splits sum.splits)
  with answer_reqs[of w e ag "question_of item" "metadata_of item" "reqs st"]
  show ?thesis by auto
next
  case False
  have "is_dict item" using assms by (rule process_item_Inr_dict)
  with False have "malformed item" using dict_malformed_or_valid by simp
  with assms have "reqs st' = reqs st" by (auto simp: process_item_malformed)
  then show ?thesis by simp
qed

lemma eval_loop_append:
  "eval_loop w e ag (xs @ ys) st =
     (case eval_loop w e ag xs st of Inl ex \<Rightarrow> Inl ex | Inr st' \<Rightarrow> eval_loop w e ag ys st')"
  by (induction xs arbitrary: st) (auto split: sum.splits)

lemma eval_loop_counts:
  "eval_loop w e ag items st = Inr st' \<Longrightarrow>
     list_all is_dict items
     \<and> length (results_log st') = length (results_log st) + length (filter valid_task items)
     \<and> length (answers_payload st') + length (filter is_error (events st'))
           + length (results_log st)
         = length (results_log st') + length (answers_payload st)
           + length (filter is_error (events st))
     \<and> length (filter is_skip (events st'))
         = length (filter is_skip (events st)) + length (filter malformed items)
     \<and> length (filter is_call (events st'))
         = length (filter is_call (events st)) + length (filter valid_task items)"
proof (induction items arbitrary: st)
  case Nil
  then show ?case by simp
next
  case (Cons item items)
  from Cons.prems obtain s1 where s1: "process_item w e ag item st = Inr s1"
    and rest: "eval_loop w e ag items s1 = Inr st'"
    by (auto split: sum.splits)
  note step = process_item_counts[OF s1] process_item_Inr_dict[OF s1]
  note ih = Cons.IH[OF rest]
  show ?case using step ih by (simp split: if_splits)
qed

lemma eval_loop_reqs:
  "eval_loop w e ag items st = Inr st' \<Longrightarrow>
     \<exists>rs. reqs st' = reqs st @ rs
         \<and> (\<forall>r\<in>set rs. api_url (core_agent ag) = Some (req_url r))"
proof (induction items arbitrary: st)
  case Nil
  then show ?case by simp
next
  case (Cons item items)
  from Cons.prems obtain s1 where s1: "process_item w e ag item st = Inr s1"
    and rest: "eval_loop w e ag items s1 = Inr st'"
    by (auto split: sum.splits)
  from process_item_reqs[OF s1] obtain r1 where r1: "reqs s1 = reqs st @ r1"
    "\<forall>r\<in>set r1. api_url (core_agent ag) = Some (req_url r)" by blast
  from Cons.IH[OF rest] obtain r2 where r2: "reqs st' = reqs s1 @ r2"
    "\<forall>r\<in>set r2. api_url (core_agent ag) = Some (req_url r)" by blast
  show ?case
  proof (intro exI[of _ "r1 @ r2"] conjI)
    show "reqs st' = reqs st @ r1 @ r2" using r1 r2 by simp
    show "\<forall>r\<in>set (r1 @ r2). api_url (core_agent ag) = Some (req_url r)"
      using r1 r2 by auto
  qed
qed

lemma process_item_same:
  assumes "same_lists s t"
  shows "same_outcome (process_item w e ag item s) (process_item w e ag item t)"
proof (cases "is_dict item")
  case False
  then show ?thesis by (simp add: process_item_not_dict)
next
  case True
  show ?thesis
  proof (cases "valid_task item")
    case True
    with assms show ?thesis
      by (auto simp: process_item_valid same_lists_def split: prod.splits sum.splits)
  next
    case False
    with \<open>is_dict item\<close> have "malformed item" using dict_malformed_or_valid by simp
    with assms show ?thesis by (simp add: process_item_malformed same_lists_def)
  qed
qed

lemma eval_loop_same:
  "same_lists s t \<Longrightarrow> same_outcome (eval_loop w e ag items s) (eval_loop w e ag items t)"
proof (induction items arbitrary: s t)
  case Nil
  then show ?case by simp
next
  case (Cons item items)
  from process_item_same[OF Cons.prems, of w e ag item]
  show ?case
    by (cases "process_item w e ag item s"; cases "process_item w e ag item t")
       (auto intro: Cons.IH)
qed

lemma same_outcome_refl: "same_outcome a a"
  by (cases a) (simp_all add: same_lists_def)

lemma eval_loop_skip_malformed:
  assumes "malformed item"
  shows "eval_loop w e ag (xs @ item # ys) st =
           (case eval_loop w e ag xs st of
              Inl ex \<Rightarrow> Inl ex
            | Inr st' \<Rightarrow>
                eval_loop w e ag ys (st'\<lparr>events := events st' @ [SkippedMalformed item]\<rparr>))"
  by (simp add: eval_loop_append process_item_malformed[OF assms] split: sum.splits)

lemma eval_loop_without_malformed:
  assumes "malformed item"
  shows "same_outcome (eval_loop w e ag (xs @ item # ys) st) (eval_loop w e ag (xs @ ys) st)"
proof (cases "eval_loop w e ag xs st")
  case (Inl ex)
  then show ?thesis by (simp add: eval_loop_append)
next
  case (Inr s1)
  have "same_lists (s1\<lparr>events := events s1 @ [SkippedMalformed item]\<rparr>) s1"
    by (simp add: same_lists_def)
  from eval_loop_same[OF this, of w e ag ys] show ?thesis
    by (simp add: eval_loop_append Inr process_item_malformed[OF assms])
qed

lemma gaia_tools_empty: "gaia_tools [] = None"
  by (simp add: gaia_tools_def lower_def)

text \<open>The example items, and the answers of the agent without a token on them.\<close>

lemma example_items:
  "valid_task task_1" "valid_task task_number" "valid_task task_empty_question"
  "malformed item_without_id" "malformed item_empty_id"
  by (simp_all add: valid_task_def malformed_def task_1_def task_number_def
      task_empty_question_def item_without_id_def item_empty_id_def task_id_of_def
      question_of_def)

lemma example_fields:
  "task_id_of task_1 = PStr ''1''" "question_of task_1 = PStr ''Q1''"
  "metadata_of task_1 = PDict []"
  "task_id_of task_number = PStr ''2''" "question_of task_number = PInt 7"
  "metadata_of task_number = PDict [(''Level'', PStr ''1'')]"
  "task_id_of task_empty_question = PStr ''3''" "question_of task_empty_question = PStr []"
  "metadata_of task_empty_question = PDict []"
  by (simp_all add: task_1_def task_number_def task_empty_question_def task_id_of_def
      question_of_def metadata_of_def)

lemma strip_dont_know: "strip ''I don't know'' = dont_know"
  by (simp add: strip_def isspace_def less_eq_char_def dont_know_def)

lemma plain_agent_no_match:
  "gaia_tools q = None \<Longrightarrow>
     GaiaAgent_answer w env_no_token plain_agent (PStr q) md n = (n, Inr dont_know)"
  by (simp add: GaiaAgent_answer_def plain_agent_def create_agent_def SimpleLLMAgent_init_def
      env_no_token_def run_PStr strip_dont_know)

lemma gaia_tools_Q1: "gaia_tools ''Q1'' = None"
  by (simp add: gaia_tools_def eval_str)

lemma answer_number:
  "GaiaAgent_answer w e ag (PInt 7) md n = (n, Inl not_subscriptable)"
  by (simp add: GaiaAgent_answer_def not_subscriptable_def)

lemma step_task_1:
  "process_item w env_no_token plain_agent task_1 st =
     Inr \<lparr>reqs = reqs st, events = events st @ [AnswerCalled (PStr ''Q1'') (PDict [])],
          answers_payload = answers_payload st @ [payload_row (PStr ''1'') dont_know],
          results_log = results_log st @ [log_row (PStr ''1'') (PStr ''Q1'') dont_know]\<rparr>"
  by (simp add: process_item_valid example_items example_fields
      plain_agent_no_match[OF gaia_tools_Q1])

lemma step_task_number:
  "process_item w e ag task_number st =
     Inr \<lparr>reqs = reqs st,
          events = events st @ [AnswerCalled (PInt 7) (PDict [(''Level'', PStr ''1'')]),
                                ErrorOnTask (PStr ''2'') not_subscriptable],
          answers_payload = answers_payload st,
          results_log = results_log st
            @ [log_row (PStr ''2'') (PInt 7) (''AGENT ERROR: '' @ exn_str not_subscriptable)]\<rparr>"
  by (simp add: process_item_valid example_items example_fields answer_number)

lemma step_item_without_id:
  "process_item w e ag item_without_id st =
     Inr (st\<lparr>events := events st @ [SkippedMalformed item_without_id]\<rparr>)"
  by (simp add: process_item_malformed example_items)

lemma loop_example:
  "eval_loop w env_no_token plain_agent [task_1, item_without_id] (start []) = Inr after_example"
  by (simp add: step_task_1 step_item_without_id start_def after_example_def)

lemma loop_mixed:
  "eval_loop w env_no_token plain_agent [task_1, task_number, item_without_id] (start [])
     = Inr after_mixed"
  by (simp add: step_task_1 step_task_number step_item_without_id start_def after_mixed_def)

section \<open>\<open>run_and_submit_all\<close>, stage by stage\<close>

lemma fetch_questions_reqs:
  "fst (fetch_questions w api n) = n @ [Request ''GET'' (api @ ''/questions'') [] None 15]"
  by (simp add: fetch_questions_def send_def split: outcome.splits)

lemma fetch_questions_raises:
  "http w n (Request ''GET'' (api @ ''/questions'') [] None 15) = Raises ex \<Longrightarrow>
     fetch_questions w api n = (n @ [Request ''GET'' (api @ ''/questions'') [] None 15], Inl ex)"
  by (simp add: fetch_questions_def send_def)

lemma fetch_questions_bad_body:
  assumes "http w n (Request ''GET'' (api @ ''/questions'') [] None 15) = Responds resp"
    and "\<not> nonempty_list (json resp)"
  shows "\<exists>ex. fetch_questions w api n
            = (n @ [Request ''GET'' (api @ ''/questions'') [] None 15], Inl ex)"
proof (cases "raise_for_status resp")
  case (Inl ex)
  with assms(1) show ?thesis by (simp add: fetch_questions_def send_def)
next
  case (Inr u)
  show ?thesis
  proof (cases "json resp")
    case (Inl ex)
    with assms(1) Inr show ?thesis by (simp add: fetch_questions_def send_def)
  next
    case body: (Inr v)
    with assms(2) have "\<And>x xs. v \<noteq> PList (x # xs)" by auto
    then have "(case v of PList items \<Rightarrow>
                    if length items = 0
                    then Inl (ValueError ''Questions endpoint returned empty or invalid payload.'')
                    else Inr items
                | _ \<Rightarrow> Inl (ValueError ''Questions endpoint returned empty or invalid payload.''))
              = Inl (ValueError ''Questions endpoint returned empty or invalid payload.'')"
      by (cases v) (auto simp: neq_Nil_conv)
    with assms(1) Inr body show ?thesis by (simp add: fetch_questions_def send_def)
  qed
qed

lemma run_fetch_failed:
  "fetch_questions w DEFAULT_API_URL [] = (n1, Inl ex) \<Longrightarrow>
     run_and_submit_all w e (Some u) =
       Inr \<lparr>status = ''Error while fetching questions: '' @ exn_str ex,
            results_df = None, requests_made = n1, loop_events = []\<rparr>"
  by (simp add: run_and_submit_all_def GaiaAgent_init_def Let_def)

lemma run_loop_raised:
  "fetch_questions w DEFAULT_API_URL [] = (n1, Inr items) \<Longrightarrow>
   eval_loop w e \<lparr>core_agent = create_agent e\<rparr> items (start n1) = Inl ex \<Longrightarrow>
     run_and_submit_all w e (Some u) = Inl ex"
  by (simp add: run_and_submit_all_def GaiaAgent_init_def Let_def start_def)

text \<open>
  The loop reads each item with \<open>item.get\<close> outside its \<open>try\<close>: an item of the
  fetched list that is not a dictionary ends \<open>run_and_submit_all\<close> with an
  \<open>AttributeError\<close>. The properties of the loop below are about the runs in which it
  ends, that is, over lists of dictionaries.
\<close>

lemma eval_loop_non_dict:
  "list_all is_dict xs \<Longrightarrow> \<not> is_dict item \<Longrightarrow> eval_loop w e ag xs st = Inr st' \<Longrightarrow>
     eval_loop w e ag (xs @ item # ys) st = Inl (AttributeError (no_attribute item ''get''))"
  by (simp add: eval_loop_append process_item_not_dict)

lemma run_raises_on_non_dict_item:
  "fetch_questions w DEFAULT_API_URL [] = (n1, Inr (item # items)) \<Longrightarrow> \<not> is_dict item \<Longrightarrow>
     run_and_submit_all w e (Some u) = Inl (AttributeError (no_attribute item ''get''))"
  by (simp add: run_loop_raised process_item_not_dict)

lemma run_no_answers:
  "fetch_questions w DEFAULT_API_URL [] = (n1, Inr items) \<Longrightarrow>
   eval_loop w e \<lparr>core_agent = create_agent e\<rparr> items (start n1) = Inr st \<Longrightarrow>
   answers_payload st = [] \<Longrightarrow>
     run_and_submit_all w e (Some u) =
       Inr \<lparr>status = ''Agent did not produce any answers to submit.'',
            results_df = Some (results_log st), requests_made = reqs st,
            loop_events = events st\<rparr>"
  by (simp add: run_and_submit_all_def GaiaAgent_init_def Let_def start_def)

lemma run_submitted:
  "fetch_questions w DEFAULT_API_URL [] = (n1, Inr items) \<Longrightarrow>
   eval_loop w e \<lparr>core_agent = create_agent e\<rparr> items (start n1) = Inr st \<Longrightarrow>
   answers_payload st \<noteq> [] \<Longrightarrow>
   submit_answers w DEFAULT_API_URL u (code_url (SPACE_ID e)) (answers_payload st) (reqs st)
     = (n2, r) \<Longrightarrow>
     run_and_submit_all w e (Some u) =
       Inr \<lparr>status =
              (case r of
                 Inl ex \<Rightarrow> failure_status w ex
               | Inr result_data \<Rightarrow>
                   (case success_status w u result_data of
                      Inl ex \<Rightarrow> failure_status w ex
                    | Inr s \<Rightarrow> s)),
            results_df = Some (results_log st), requests_made = n2,
            loop_events = events st\<rparr>"
  by (simp add: run_and_submit_all_def GaiaAgent_init_def Let_def start_def)

lemma submit_answers_reqs:
  "\<exists>r. fst (submit_answers w api u c answers n) = n @ [r] \<and> req_url r = api @ ''/submit''"
  by (simp add: submit_answers_def send_def Let_def split: outcome.splits)

lemma hf_url_not_submit:
  "api_url (create_agent e) = Some (req_url r) \<Longrightarrow> \<not> is_submit r"
  by (auto simp: create_agent_def SimpleLLMAgent_init_def is_submit_def DEFAULT_API_URL_def
      split: if_splits)

lemma questions_not_submit: "\<not> is_submit questions_request"
  by (simp add: is_submit_def questions_request_def)

lemma loop_never_submits:
  assumes "fetch_questions w DEFAULT_API_URL [] = (n1, Inr items)"
    and "eval_loop w e \<lparr>core_agent = create_agent e\<rparr> items (start n1) = Inr st"
  shows "\<not> list_ex is_submit (reqs st)"
proof -
  have n1: "n1 = [questions_request]"
    using fetch_questions_reqs[of w DEFAULT_API_URL "[]"] assms(1)
    by (simp add: questions_request_def)
  from eval_loop_reqs[OF assms(2)] obtain rs where rs: "reqs st = n1 @ rs"
    "\<forall>r\<in>set rs. api_url (create_agent e) = Some (req_url r)"
    by (auto simp: start_def)
  then have "\<forall>r\<in>set rs. \<not> is_submit r" using hf_url_not_submit by blast
  with rs n1 questions_not_submit show ?thesis by (auto simp: list_ex_iff)
qed

lemma fetch_ok:
  "fetch_questions (scoring_world (ok_response body (PList (x # xs))) submission) DEFAULT_API_URL []
     = ([questions_request], Inr (x # xs))"
  by (simp add: fetch_questions_def send_def scoring_world_def ok_response_def
      raise_for_status_def questions_request_def)

lemma plain_agent_eq: "\<lparr>core_agent = create_agent env_no_token\<rparr> = plain_agent"
  by (simp add: plain_agent_def)

section \<open>The status line of a failed submission\<close>

lemma show_nat_examples: "show_nat 500 = ''500''" "show_nat 422 = ''422''"
  by (simp_all add: show_nat.simps digit_def)

lemma py_in_prefix: "py_in xs (xs @ ss)"
  by (simp add: py_in_sublist)

lemma py_in_middle: "py_in xs (ps @ xs @ ss)"
  by (simp add: py_in_sublist sublist_appendI)

lemma http_error_detail_cases:
  "http_error_detail w resp =
     ''Server responded with status '' @ show_nat (status_code resp) @ ''.''
     @ (if is_dict_body (json resp)
        then '' Detail: '' @ py_str w (case map_of (py_items (projr (json resp))) ''detail'' of
                                         Some d \<Rightarrow> d | None \<Rightarrow> PStr (resp_text resp))
        else '' Response: '' @ take 500 (resp_text resp))"
proof (cases "json resp")
  case (Inl ex)
  then show ?thesis by (simp add: http_error_detail_def)
next
  case (Inr v)
  then show ?thesis by (cases v) (simp_all add: http_error_detail_def)
qed

lemma failure_status_distinct:
  "classify ex1 \<noteq> classify ex2 \<Longrightarrow> failure_status w ex1 \<noteq> failure_status w ex2"
  by (cases ex1; cases ex2) (auto simp: http_error_detail_def)

lemma submit_answers_eq:
  "submit_answers w DEFAULT_API_URL u c answers n =
     (n @ [submit_request u c answers],
      case http w n (submit_request u c answers) of
        Raises ex \<Rightarrow> Inl ex
      | Responds resp \<Rightarrow>
          (case raise_for_status resp of Inl ex \<Rightarrow> Inl ex | Inr _ \<Rightarrow> json resp))"
  by (simp add: submit_answers_def send_def submit_request_def Let_def split: outcome.splits)

lemma long_error_body_length: "length long_error_body = 613"
  by (simp add: long_error_body_def)

lemma loop_example_fetched:
  "eval_loop w env_no_token \<lparr>core_agent = create_agent env_no_token\<rparr>
     [task_1, item_without_id] (start [questions_request]) = Inr after_example_fetched"
  by (simp add: plain_agent_eq step_task_1 step_item_without_id start_def
      after_example_fetched_def after_example_def)

section \<open>Properties of the evaluation loop\<close>

text \<open>
  C6. An item whose task id is empty or missing, or whose question is absent, is dropped
  by the loop: the step leaves the state as it was but for the log line of the skip (no
  call of the agent, no request, no row of the result log, no row of the payload), and
  the loop goes on with the items after it. The loop over a list with such an item ends
  as the loop over the list without it: with the same exception, or with the same
  requests, payload and result log.
\<close>

theorem malformed_item_dropped:
  "malformed item \<longrightarrow>
     process_item w e ag item st = Inr (st\<lparr>events := events st @ [SkippedMalformed item]\<rparr>)
     \<and> eval_loop w e ag (xs @ item # ys) st =
         (case eval_loop w e ag xs st of
            Inl ex \<Rightarrow> Inl ex
          | Inr st' \<Rightarrow>
              eval_loop w e ag ys (st'\<lparr>events := events st' @ [SkippedMalformed item]\<rparr>))
     \<and> same_outcome (eval_loop w e ag (xs @ item # ys) st) (eval_loop w e ag (xs @ ys) st)"
proof (intro impI conjI)
  assume m: "malformed item"
  show "process_item w e ag item st
          = Inr (st\<lparr>events := events st @ [SkippedMalformed item]\<rparr>)"
    by (rule process_item_malformed[OF m])
  show "eval_loop w e ag (xs @ item # ys) st =
         (case eval_loop w e ag xs st of
            Inl ex \<Rightarrow> Inl ex
          | Inr st' \<Rightarrow>
              eval_loop w e ag ys (st'\<lparr>events := events st' @ [SkippedMalformed item]\<rparr>))"
    by (rule eval_loop_skip_malformed[OF m])
  show "same_outcome (eval_loop w e ag (xs @ item # ys) st) (eval_loop w e ag (xs @ ys) st)"
    by (rule eval_loop_without_malformed[OF m])
qed

theorem malformed_item_dropped_witness:
  "malformed item_without_id
   \<and> process_item world_timeout env_no_token plain_agent item_without_id (start []) =
       Inr \<lparr>reqs = [], events = [SkippedMalformed item_without_id],
            answers_payload = [], results_log = []\<rparr>
   \<and> eval_loop world_timeout env_no_token plain_agent [task_1, item_without_id] (start []) =
       Inr \<lparr>reqs = [],
            events = [AnswerCalled (PStr ''Q1'') (PDict []), SkippedMalformed item_without_id],
            answers_payload = [payload_row (PStr ''1'') dont_know],
            results_log = [log_row (PStr ''1'') (PStr ''Q1'') dont_know]\<rparr>
   \<and> eval_loop world_timeout env_no_token plain_agent [item_without_id, task_1] (start []) =
       Inr \<lparr>reqs = [],
            events = [SkippedMalformed item_without_id, AnswerCalled (PStr ''Q1'') (PDict [])],
            answers_payload = [payload_row (PStr ''1'') dont_know],
            results_log = [log_row (PStr ''1'') (PStr ''Q1'') dont_know]\<rparr>"
  using malformed_item_dropped[of item_without_id world_timeout env_no_token plain_agent
      "start []" "[task_1]" "[]"]
    malformed_item_dropped[of item_without_id world_timeout env_no_token plain_agent
      "start []" "[]" "[task_1]"]
  by (simp add: example_items step_task_1 start_def)

text \<open>
  C10. The two checks differ. An item with a truthy task id and the empty string as
  its question is a valid task: the agent is called on the empty question and a row
  enters the result log (and the payload, since the agent returns a string on every
  string). An item whose task id is the empty string is malformed and dropped, as an
  item without a task id is.
\<close>

theorem empty_question_dispatched_empty_id_dropped:
  "(is_dict item \<and> truthy (task_id_of item) \<and> question_of item = PStr []
      \<longrightarrow> valid_task item
          \<and> (\<exists>n' a. process_item w e ag item st =
                Inr \<lparr>reqs = n',
                     events = events st @ [AnswerCalled (PStr []) (metadata_of item)],
                     answers_payload = answers_payload st @ [payload_row (task_id_of item) a],
                     results_log = results_log st
                       @ [log_row (task_id_of item) (PStr []) a]\<rparr>))
   \<and> (is_dict item \<and> task_id_of item = PStr []
      \<longrightarrow> malformed item
          \<and> process_item w e ag item st
              = Inr (st\<lparr>events := events st @ [SkippedMalformed item]\<rparr>))
   \<and> (is_dict item \<and> map_of (py_items item) ''task_id'' = None
      \<longrightarrow> malformed item
          \<and> process_item w e ag item st
              = Inr (st\<lparr>events := events st @ [SkippedMalformed item]\<rparr>))"
proof (intro conjI impI)
  assume h: "is_dict item \<and> truthy (task_id_of item) \<and> question_of item = PStr []"
  then show v: "valid_task item" by (simp add: valid_task_def)
  let ?r = "GaiaAgent_answer w e ag (PStr []) (metadata_of item) (reqs st)"
  obtain a where "snd ?r = Inr a" using answer_PStr_returns by blast
  then obtain n' where "?r = (n', Inr a)" by (cases ?r) auto
  with v h show "\<exists>n' a. process_item w e ag item st =
                Inr \<lparr>reqs = n',
                     events = events st @ [AnswerCalled (PStr []) (metadata_of item)],
                     answers_payload = answers_payload st @ [payload_row (task_id_of item) a],
                     results_log = results_log st
                       @ [log_row (task_id_of item) (PStr []) a]\<rparr>"
    by (intro exI[of _ n'] exI[of _ a]) (simp add: process_item_valid)
next
  assume h: "is_dict item \<and> task_id_of item = PStr []"
  then show m: "malformed item" by (simp add: malformed_def)
  then show "process_item w e ag item st
              = Inr (st\<lparr>events := events st @ [SkippedMalformed item]\<rparr>)"
    by (rule process_item_malformed)
next
  assume h: "is_dict item \<and> map_of (py_items item) ''task_id'' = None"
  then show m: "malformed item" by (simp add: malformed_def task_id_of_def)
  then show "process_item w e ag item st
              = Inr (st\<lparr>events := events st @ [SkippedMalformed item]\<rparr>)"
    by (rule process_item_malformed)
qed

theorem empty_question_dispatched_empty_id_dropped_witness:
  "process_item world_timeout env_no_token plain_agent task_empty_question (start []) =
     Inr \<lparr>reqs = [], events = [AnswerCalled (PStr []) (PDict [])],
          answers_payload = [payload_row (PStr ''3'') dont_know],
          results_log = [log_row (PStr ''3'') (PStr []) dont_know]\<rparr>
   \<and> process_item world_timeout env_no_token plain_agent item_empty_id (start []) =
     Inr \<lparr>reqs = [], events = [SkippedMalformed item_empty_id],
          answers_payload = [], results_log = []\<rparr>
   \<and> process_item world_timeout env_no_token plain_agent item_without_id (start []) =
     Inr \<lparr>reqs = [], events = [SkippedMalformed item_without_id],
          answers_payload = [], results_log = []\<rparr>"
proof -
  have d: "is_dict task_empty_question" "is_dict item_empty_id" "is_dict item_without_id"
    by (simp_all add: task_empty_question_def item_empty_id_def item_without_id_def)
  have f: "truthy (task_id_of task_empty_question)"
    "question_of task_empty_question = PStr []"
    by (simp_all add: example_fields)
  have g: "task_id_of item_empty_id = PStr []"
    "map_of (py_items item_without_id) ''task_id'' = None"
    by (simp_all add: item_empty_id_def item_without_id_def task_id_of_def)
  have a: "GaiaAgent_answer world_timeout env_no_token plain_agent (PStr []) (PDict []) []
            = ([], Inr dont_know)"
    by (rule plain_agent_no_match[OF gaia_tools_empty])
  from empty_question_dispatched_empty_id_dropped[of task_empty_question world_timeout
      env_no_token plain_agent "start []"] d f
  obtain n' a' where
    "process_item world_timeout env_no_token plain_agent task_empty_question (start []) =
       Inr \<lparr>reqs = n', events = events (start []) @ [AnswerCalled (PStr []) (metadata_of task_empty_question)],
            answers_payload = answers_payload (start []) @ [payload_row (task_id_of task_empty_question) a'],
            results_log = results_log (start [])
                       @ [log_row (task_id_of task_empty_question) (PStr []) a']\<rparr>"
    by (auto simp: example_fields)
  moreover have "process_item world_timeout env_no_token plain_agent task_empty_question (start []) =
     Inr \<lparr>reqs = [], events = [AnswerCalled (PStr []) (PDict [])],
          answers_payload = [payload_row (PStr ''3'') dont_know],
          results_log = [log_row (PStr ''3'') (PStr []) dont_know]\<rparr>"
    by (simp add: process_item_valid example_items example_fields a start_def)
  ultimately show ?thesis
    using empty_question_dispatched_empty_id_dropped[of item_empty_id world_timeout
        env_no_token plain_agent "start []"]
      empty_question_dispatched_empty_id_dropped[of item_without_id world_timeout
        env_no_token plain_agent "start []"] d g
    by (simp add: start_def)
qed

text \<open>
  C3, as stated, fails: over the example list of the specification the payload and the
  result log have the same length, no task raised, and yet an item was malformed.
\<close>

theorem payload_log_equality_counterexample:
  "eval_loop world_timeout env_no_token plain_agent [task_1, item_without_id] (start [])
     = Inr after_example
   \<and> \<not> (length (answers_payload after_example) = length (results_log after_example)
          \<longleftrightarrow> \<not> list_ex is_error (events after_example)
               \<and> \<not> list_ex malformed [task_1, item_without_id])"
proof
  show "eval_loop world_timeout env_no_token plain_agent [task_1, item_without_id] (start [])
     = Inr after_example"
    by (rule loop_example)
  show "\<not> (length (answers_payload after_example) = length (results_log after_example)
          \<longleftrightarrow> \<not> list_ex is_error (events after_example)
               \<and> \<not> list_ex malformed [task_1, item_without_id])"
    by (simp add: after_example_def example_items)
qed

text \<open>
  C3, amended. When the loop ends, the payload is no longer than the result log; the
  result log has one row for each valid task and the payload one row less for each
  task on which the agent raised, so the two lengths are equal if and only if no task
  raised. Malformed items enter neither list and do not count. When the agent raises
  on a valid task, the step adds the row with the answer \<open>AGENT ERROR: <message>\<close> to
  the result log and nothing to the payload.
\<close>

theorem payload_log_size_invariant:
  "(eval_loop w e ag items (start n) = Inr st
      \<longrightarrow> length (answers_payload st) \<le> length (results_log st)
          \<and> length (results_log st)
              = length (answers_payload st) + length (filter is_error (events st))
          \<and> (length (answers_payload st) = length (results_log st)
               \<longleftrightarrow> \<not> list_ex is_error (events st))
          \<and> length (results_log st) = length (filter valid_task items)
          \<and> length (filter is_skip (events st)) = length (filter malformed items))
   \<and> (valid_task item
        \<and> GaiaAgent_answer w e ag (question_of item) (metadata_of item) (reqs s) = (n', Inl ex)
      \<longrightarrow> process_item w e ag item s =
            Inr \<lparr>reqs = n',
                 events = events s @ [AnswerCalled (question_of item) (metadata_of item),
                                      ErrorOnTask (task_id_of item) ex],
                 answers_payload = answers_payload s,
                 results_log = results_log s
                   @ [log_row (task_id_of item) (question_of item)
                        (''AGENT ERROR: '' @ exn_str ex)]\<rparr>)"
proof (intro conjI impI)
  assume "valid_task item
        \<and> GaiaAgent_answer w e ag (question_of item) (metadata_of item) (reqs s) = (n', Inl ex)"
  then show "process_item w e ag item s =
            Inr \<lparr>reqs = n',
                 events = events s @ [AnswerCalled (question_of item) (metadata_of item),
                                      ErrorOnTask (task_id_of item) ex],
                 answers_payload = answers_payload s,
                 results_log = results_log s
                   @ [log_row (task_id_of item) (question_of item)
                        (''AGENT ERROR: '' @ exn_str ex)]\<rparr>"
    by (simp add: process_item_valid)
next
  assume "eval_loop w e ag items (start n) = Inr st"
  from eval_loop_counts[OF this]
  have c: "length (results_log st) = length (filter valid_task items)"
    "length (answers_payload st) + length (filter is_error (events st)) = length (results_log st)"
    "length (filter is_skip (events st)) = length (filter malformed items)"
    by (simp_all add: start_def)
  show "length (answers_payload st) \<le> length (results_log st)" using c by simp
  show "length (results_log st)
              = length (answers_payload st) + length (filter is_error (events st))"
    using c by simp
  show "length (results_log st) = length (filter valid_task items)" using c by simp
  show "length (filter is_skip (events st)) = length (filter malformed items)" using c by simp
  have "length (filter is_error (events st)) = 0 \<longleftrightarrow> \<not> list_ex is_error (events st)"
    by (simp add: list_ex_iff filter_empty_conv)
  with c show "length (answers_payload st) = length (results_log st)
               \<longleftrightarrow> \<not> list_ex is_error (events st)"
    by auto
qed

theorem payload_log_size_invariant_witness:
  "eval_loop world_timeout env_no_token plain_agent [task_1, task_number, item_without_id]
     (start []) = Inr after_mixed
   \<and> length (answers_payload after_mixed) = 1 \<and> length (results_log after_mixed) = 2
   \<and> length (filter is_error (events after_mixed)) = 1
   \<and> length (filter valid_task [task_1, task_number, item_without_id]) = 2
   \<and> length (filter malformed [task_1, task_number, item_without_id]) = 1
   \<and> valid_task task_number
   \<and> GaiaAgent_answer world_timeout env_no_token plain_agent (question_of task_number)
        (metadata_of task_number) [] = ([], Inl not_subscriptable)
   \<and> process_item world_timeout env_no_token plain_agent task_number (start []) =
        Inr \<lparr>reqs = [],
             events = [AnswerCalled (PInt 7) (PDict [(''Level'', PStr ''1'')]),
                       ErrorOnTask (PStr ''2'') not_subscriptable],
             answers_payload = [],
             results_log = [log_row (PStr ''2'') (PInt 7)
                              (''AGENT ERROR: '' @ exn_str not_subscriptable)]\<rparr>"
proof -
  have l: "eval_loop world_timeout env_no_token plain_agent
             [task_1, task_number, item_without_id] (start []) = Inr after_mixed"
    by (rule loop_mixed)
  have a: "GaiaAgent_answer world_timeout env_no_token plain_agent (question_of task_number)
        (metadata_of task_number) (reqs (start [])) = ([], Inl not_subscriptable)"
    by (simp add: example_fields answer_number start_def)
  have v: "valid_task task_number" by (rule example_items)
  have m: "\<not> malformed task_1" "\<not> malformed task_number" "\<not> valid_task item_without_id"
    using example_items dict_malformed_or_valid malformed_is_dict valid_task_is_dict by blast+
  show ?thesis
    using payload_log_size_invariant[of world_timeout env_no_token plain_agent
        "[task_1, task_number, item_without_id]" "[]" after_mixed task_number "start []" "[]"
        not_subscriptable] l a v m
    by (simp add: example_items example_fields start_def after_mixed_def)
qed

section \<open>Properties of \<open>run_and_submit_all\<close>\<close>

text \<open>
  C4. When the questions endpoint answers with a body that is not a non-empty list,
  \<open>fetch_questions\<close> raises, and \<open>run_and_submit_all\<close> returns the status line of
  the failure with no result log: the request for the questions is the only request,
  and the loop never starts (no call of the agent, no event). A body that decodes to
  something else than a non-empty list, under a status below 400, raises the
  \<open>ValueError\<close> of \<open>fetch_questions\<close>.
\<close>

theorem fetch_failure_aborts:
  "(http w [] questions_request = Responds resp \<and> \<not> nonempty_list (json resp)
      \<longrightarrow> (\<exists>ex. fetch_questions w DEFAULT_API_URL [] = ([questions_request], Inl ex)
               \<and> run_and_submit_all w e (Some u) =
                   Inr \<lparr>status = ''Error while fetching questions: '' @ exn_str ex,
                        results_df = None, requests_made = [questions_request],
                        loop_events = []\<rparr>))
   \<and> (http w [] questions_request = Responds resp \<and> raise_for_status resp = Inr ()
        \<and> json resp = Inr v \<and> \<not> nonempty_list (Inr v)
      \<longrightarrow> fetch_questions w DEFAULT_API_URL [] =
            ([questions_request],
             Inl (ValueError ''Questions endpoint returned empty or invalid payload.'')))"
proof (intro conjI impI)
  assume h: "http w [] questions_request = Responds resp \<and> \<not> nonempty_list (json resp)"
  then have "http w [] (Request ''GET'' (DEFAULT_API_URL @ ''/questions'') [] None 15)
               = Responds resp"
    by (simp add: questions_request_def)
  from fetch_questions_bad_body[OF this] h
  obtain ex where ex: "fetch_questions w DEFAULT_API_URL [] = ([questions_request], Inl ex)"
    by (auto simp: questions_request_def)
  from run_fetch_failed[OF ex] ex
  show "\<exists>ex. fetch_questions w DEFAULT_API_URL [] = ([questions_request], Inl ex)
               \<and> run_and_submit_all w e (Some u) =
                   Inr \<lparr>status = ''Error while fetching questions: '' @ exn_str ex,
                        results_df = None, requests_made = [questions_request],
                        loop_events = []\<rparr>"
    by blast
next
  assume h: "http w [] questions_request = Responds resp \<and> raise_for_status resp = Inr ()
        \<and> json resp = Inr v \<and> \<not> nonempty_list (Inr v)"
  then have "\<And>x xs. v \<noteq> PList (x # xs)" by auto
  then have "(case v of PList items \<Rightarrow>
                    if length items = 0
                    then Inl (ValueError ''Questions endpoint returned empty or invalid payload.'')
                    else Inr items
                | _ \<Rightarrow> Inl (ValueError ''Questions endpoint returned empty or invalid payload.''))
              = Inl (ValueError ''Questions endpoint returned empty or invalid payload.'')"
    by (cases v) (auto simp: neq_Nil_conv)
  with h show "fetch_questions w DEFAULT_API_URL [] =
            ([questions_request],
             Inl (ValueError ''Questions endpoint returned empty or invalid payload.''))"
    by (simp add: fetch_questions_def send_def questions_request_def)
qed

theorem fetch_failure_aborts_witness:
  "fetch_questions (scoring_world empty_questions empty_questions) DEFAULT_API_URL [] =
     ([questions_request],
      Inl (ValueError ''Questions endpoint returned empty or invalid payload.''))
   \<and> run_and_submit_all (scoring_world empty_questions empty_questions) env_no_token
       (Some ''student'') =
       Inr \<lparr>status = ''Error while fetching questions: Questions endpoint returned empty or invalid payload.'',
            results_df = None, requests_made = [questions_request], loop_events = []\<rparr>"
proof -
  let ?w = "scoring_world empty_questions empty_questions"
  let ?r = "Response 200 ''OK'' [] ''[]'' (Inr (PList []))"
  have h: "http ?w [] questions_request = Responds ?r"
    by (simp add: scoring_world_def empty_questions_def ok_response_def questions_request_def)
  have b: "\<not> nonempty_list (json ?r)" "raise_for_status ?r = Inr ()" "json ?r = Inr (PList [])"
    "\<not> nonempty_list (Inr (PList []))"
    by (simp_all add: raise_for_status_def)
  show ?thesis
    using fetch_failure_aborts[of ?w ?r env_no_token "''student''" "PList []"] h b
    by auto
qed

text \<open>
  C7. When the loop ends with an empty payload, \<open>run_and_submit_all\<close> returns the
  status line \<open>Agent did not produce any answers to submit.\<close> with the whole result
  log, and makes no request after the loop; none of the requests of the run goes to
  the submission endpoint. The result log has one row for each valid task of the fetched
  list, and on each of them the agent raised.
\<close>

theorem empty_payload_short_circuit:
  "fetch_questions w DEFAULT_API_URL [] = (n1, Inr items)
   \<and> eval_loop w e \<lparr>core_agent = create_agent e\<rparr> items (start n1) = Inr st
   \<and> answers_payload st = []
   \<longrightarrow> run_and_submit_all w e (Some u) =
         Inr \<lparr>status = ''Agent did not produce any answers to submit.'',
              results_df = Some (results_log st), requests_made = reqs st,
              loop_events = events st\<rparr>
       \<and> \<not> list_ex is_submit (reqs st)
       \<and> length (results_log st) = length (filter valid_task items)
       \<and> length (filter is_error (events st)) = length (filter valid_task items)"
proof (intro impI)
  assume h: "fetch_questions w DEFAULT_API_URL [] = (n1, Inr items)
   \<and> eval_loop w e \<lparr>core_agent = create_agent e\<rparr> items (start n1) = Inr st
   \<and> answers_payload st = []"
  then have f: "fetch_questions w DEFAULT_API_URL [] = (n1, Inr items)"
    and l: "eval_loop w e \<lparr>core_agent = create_agent e\<rparr> items (start n1) = Inr st"
    and p: "answers_payload st = []" by auto
  from eval_loop_counts[OF l] p
  have c: "length (results_log st) = length (filter valid_task items)"
    "length (filter is_error (events st)) = length (results_log st)"
    by (simp_all add: start_def)
  show "run_and_submit_all w e (Some u) =
         Inr \<lparr>status = ''Agent did not produce any answers to submit.'',
              results_df = Some (results_log st), requests_made = reqs st,
              loop_events = events st\<rparr>
       \<and> \<not> list_ex is_submit (reqs st)
       \<and> length (results_log st) = length (filter valid_task items)
       \<and> length (filter is_error (events st)) = length (filter valid_task items)"
    using run_no_answers[OF f l p] loop_never_submits[OF f l] c by simp
qed

theorem empty_payload_short_circuit_witness:
  "run_and_submit_all (scoring_world failing_questions empty_questions) env_no_token
       (Some ''student'') =
     Inr \<lparr>status = ''Agent did not produce any answers to submit.'',
          results_df = Some [log_row (PStr ''2'') (PInt 7)
                               (''AGENT ERROR: '' @ exn_str not_subscriptable)],
          requests_made = [questions_request],
          loop_events = [AnswerCalled (PInt 7) (PDict [(''Level'', PStr ''1'')]),
                         ErrorOnTask (PStr ''2'') not_subscriptable,
                         SkippedMalformed item_without_id]\<rparr>
   \<and> \<not> list_ex is_submit [questions_request]
   \<and> length (filter valid_task [task_number, item_without_id]) = 1"
proof -
  let ?w = "scoring_world failing_questions empty_questions"
  have f: "fetch_questions ?w DEFAULT_API_URL []
             = ([questions_request], Inr [task_number, item_without_id])"
    unfolding failing_questions_def by (rule fetch_ok)
  have l: "eval_loop ?w env_no_token \<lparr>core_agent = create_agent env_no_token\<rparr>
             [task_number, item_without_id] (start [questions_request]) = Inr after_failing"
    by (simp add: step_task_number step_item_without_id start_def after_failing_def)
  have p: "answers_payload after_failing = []" by (simp add: after_failing_def)
  have m: "\<not> valid_task item_without_id"
    using example_items dict_malformed_or_valid malformed_is_dict by blast
  show ?thesis
    using empty_payload_short_circuit[of ?w "[questions_request]"
        "[task_number, item_without_id]" env_no_token after_failing "''student''"] f l p m
    by (simp add: after_failing_def example_items)
qed

text \<open>
  C5, as stated, fails on the body of an HTTP error: when the body decodes to a JSON
  object without a \<open>detail\<close> field, the status line holds the whole body (here 613
  characters), not its first 500 characters.
\<close>

theorem http_error_body_not_truncated_counterexample:
  "is_dict_body (json long_error_response)
   \<and> map_of (py_items (projr (json long_error_response))) ''detail'' = None
   \<and> failure_status world_timeout (HTTPError ''500 Server Error'' long_error_response) =
       ''Submission Failed: Server responded with status 500. Detail: ''
       @ resp_text long_error_response
   \<and> length (resp_text long_error_response) = 613
   \<and> length (take 500 (resp_text long_error_response)) = 500"
  by (simp add: http_error_detail_cases long_error_response_def long_error_body_length
      show_nat_examples)

text \<open>
  C5, amended. A failure of the submission gives one of four status lines, by the class
  of the exception. An HTTP error: \<open>Submission Failed\<close>, the status code, and then
  the \<open>detail\<close> field when the body decodes to a dictionary that has one, the whole
  text of the body when it decodes to a dictionary without one, and the first 500
  characters of the text when the body does not decode or decodes to something else.
  A timeout: a line of its own. Any other exception of the requests library: a network
  error with its message. Any other exception: an unexpected error with its message.
  Status lines of different classes differ. Whatever the submission does,
  \<open>run_and_submit_all\<close> returns a status line and the result log, and raises nothing.
\<close>

theorem submission_failure_classified:
  "py_in ''Submission Failed'' (failure_status w (HTTPError m resp))
   \<and> py_in (show_nat (status_code resp)) (failure_status w (HTTPError m resp))
   \<and> (json resp = Inr (PDict kv) \<and> map_of kv ''detail'' = Some d
      \<longrightarrow> failure_status w (HTTPError m resp) =
            ''Submission Failed: Server responded with status ''
            @ show_nat (status_code resp) @ ''. Detail: '' @ py_str w d)
   \<and> (json resp = Inr (PDict kv) \<and> map_of kv ''detail'' = None
      \<longrightarrow> failure_status w (HTTPError m resp) =
            ''Submission Failed: Server responded with status ''
            @ show_nat (status_code resp) @ ''. Detail: '' @ resp_text resp)
   \<and> (\<not> is_dict_body (json resp)
      \<longrightarrow> failure_status w (HTTPError m resp) =
            ''Submission Failed: Server responded with status ''
            @ show_nat (status_code resp) @ ''. Response: '' @ take 500 (resp_text resp))
   \<and> failure_status w (Timeout m) = ''Submission Failed: The request timed out.''
   \<and> failure_status w (RequestException m) = ''Submission Failed: Network error - '' @ m
   \<and> (classify ex = UnexpectedFailure
      \<longrightarrow> failure_status w ex
            = ''An unexpected error occurred during submission: '' @ exn_str ex)
   \<and> (classify ex1 \<noteq> classify ex2 \<longrightarrow> failure_status w ex1 \<noteq> failure_status w ex2)
   \<and> (fetch_questions w DEFAULT_API_URL [] = (n1, Inr items)
        \<and> eval_loop w e \<lparr>core_agent = create_agent e\<rparr> items (start n1) = Inr st
        \<and> answers_payload st \<noteq> []
        \<and> submit_answers w DEFAULT_API_URL u (code_url (SPACE_ID e)) (answers_payload st)
             (reqs st) = (n2, r)
      \<longrightarrow> (\<exists>s. run_and_submit_all w e (Some u) =
                  Inr \<lparr>status = s, results_df = Some (results_log st), requests_made = n2,
                       loop_events = events st\<rparr>
               \<and> (\<forall>ex'. r = Inl ex' \<longrightarrow> s = failure_status w ex')))"
proof (intro conjI impI)
  have s: "failure_status w (HTTPError m resp) =
     ''Submission Failed'' @ '': Server responded with status '' @ show_nat (status_code resp)
       @ (''.'' @ (if is_dict_body (json resp)
        then '' Detail: '' @ py_str w (case map_of (py_items (projr (json resp))) ''detail'' of
                                         Some d \<Rightarrow> d | None \<Rightarrow> PStr (resp_text resp))
        else '' Response: '' @ take 500 (resp_text resp)))"
    by (simp add: http_error_detail_cases)
  show "py_in ''Submission Failed'' (failure_status w (HTTPError m resp))"
    unfolding s by (rule py_in_prefix)
  show "py_in (show_nat (status_code resp)) (failure_status w (HTTPError m resp))"
    unfolding s append_assoc[symmetric, of "''Submission Failed''"] by (rule py_in_middle)
next
  assume "classify ex = UnexpectedFailure"
  then show "failure_status w ex
            = ''An unexpected error occurred during submission: '' @ exn_str ex"
    by (cases ex) simp_all
next
  assume "classify ex1 \<noteq> classify ex2"
  then show "failure_status w ex1 \<noteq> failure_status w ex2"
    by (rule failure_status_distinct)
next
  assume h: "fetch_questions w DEFAULT_API_URL [] = (n1, Inr items)
        \<and> eval_loop w e \<lparr>core_agent = create_agent e\<rparr> items (start n1) = Inr st
        \<and> answers_payload st \<noteq> []
        \<and> submit_answers w DEFAULT_API_URL u (code_url (SPACE_ID e)) (answers_payload st)
             (reqs st) = (n2, r)"
  then have "run_and_submit_all w e (Some u) =
       Inr \<lparr>status =
              (case r of
                 Inl ex \<Rightarrow> failure_status w ex
               | Inr result_data \<Rightarrow>
                   (case success_status w u result_data of
                      Inl ex \<Rightarrow> failure_status w ex
                    | Inr s \<Rightarrow> s)),
            results_df = Some (results_log st), requests_made = n2,
            loop_events = events st\<rparr>"
    by (intro run_submitted) auto
  then show "\<exists>s. run_and_submit_all w e (Some u) =
                  Inr \<lparr>status = s, results_df = Some (results_log st), requests_made = n2,
                       loop_events = events st\<rparr>
               \<and> (\<forall>ex'. r = Inl ex' \<longrightarrow> s = failure_status w ex')"
    by auto
qed (simp_all add: http_error_detail_cases)


theorem submission_failure_classified_witness:
  "failure_status world_timeout (HTTPError ''422 Client Error'' detail_response) =
     ''Submission Failed: Server responded with status 422. Detail: Invalid answers''
   \<and> failure_status world_timeout (HTTPError ''500 Server Error'' long_error_response) =
       ''Submission Failed: Server responded with status 500. Detail: '' @ long_error_body
   \<and> failure_status world_timeout html_error =
       ''Submission Failed: Server responded with status 500. Response: <html>Internal Server Error</html>''
   \<and> failure_status world_timeout (ValueError ''bad value'') =
       ''An unexpected error occurred during submission: bad value''
   \<and> failure_status world_timeout (Timeout ''Read timed out.'')
       \<noteq> failure_status world_timeout (RequestException ''Read timed out.'')
   \<and> run_and_submit_all (scoring_world example_questions (Responds html_response))
         env_no_token (Some ''student'') =
       Inr \<lparr>status = ''Submission Failed: Server responded with status 500. Response: <html>Internal Server Error</html>'',
            results_df = Some [log_row (PStr ''1'') (PStr ''Q1'') dont_know],
            requests_made = [questions_request, example_submission],
            loop_events = [AnswerCalled (PStr ''Q1'') (PDict []),
                           SkippedMalformed item_without_id]\<rparr>
   \<and> run_and_submit_all (scoring_world example_questions (Raises (Timeout ''Read timed out.'')))
         env_no_token (Some ''student'') =
       Inr \<lparr>status = ''Submission Failed: The request timed out.'',
            results_df = Some [log_row (PStr ''1'') (PStr ''Q1'') dont_know],
            requests_made = [questions_request, example_submission],
            loop_events = [AnswerCalled (PStr ''Q1'') (PDict []),
                           SkippedMalformed item_without_id]\<rparr>"
proof -
  let ?wh = "scoring_world example_questions (Responds html_response)"
  let ?wt = "scoring_world example_questions (Raises (Timeout ''Read timed out.''))"
  have j: "json detail_response = Inr (PDict [(''detail'', PStr ''Invalid answers'')])"
    "map_of [(''detail'', PStr ''Invalid answers'')] ''detail'' = Some (PStr ''Invalid answers'')"
    "status_code detail_response = 422"
    "json long_error_response = Inr (PDict [(''error'', PStr (replicate 600 (CHR ''x'')))])"
    "map_of [(''error'', PStr (replicate 600 (CHR ''x'')))] ''detail'' = None"
    "status_code long_error_response = 500" "resp_text long_error_response = long_error_body"
    "\<not> is_dict_body (json html_response)" "status_code html_response = 500"
    "resp_text html_response = ''<html>Internal Server Error</html>''"
    by (simp_all add: detail_response_def long_error_response_def html_response_def)
  have c: "classify (ValueError ''bad value'') = UnexpectedFailure"
    "classify (Timeout ''Read timed out.'') \<noteq> classify (RequestException ''Read timed out.'')"
    by simp_all
  have fh: "fetch_questions ?wh DEFAULT_API_URL [] = ([questions_request], Inr [task_1, item_without_id])"
    and ft: "fetch_questions ?wt DEFAULT_API_URL [] = ([questions_request], Inr [task_1, item_without_id])"
    unfolding example_questions_def by (rule fetch_ok)+
  have l: "\<And>w. eval_loop w env_no_token \<lparr>core_agent = create_agent env_no_token\<rparr>
     [task_1, item_without_id] (start [questions_request]) = Inr after_example_fetched"
    by (rule loop_example_fetched)
  have p: "answers_payload after_example_fetched \<noteq> []"
    "answers_payload after_example_fetched = [payload_row (PStr ''1'') dont_know]"
    "reqs after_example_fetched = [questions_request]"
    "results_log after_example_fetched = [log_row (PStr ''1'') (PStr ''Q1'') dont_know]"
    "events after_example_fetched = [AnswerCalled (PStr ''Q1'') (PDict []),
                           SkippedMalformed item_without_id]"
    by (simp_all add: after_example_fetched_def after_example_def)
  have cu: "code_url (SPACE_ID env_no_token) = []"
    by (simp add: code_url_def env_no_token_def)
  have su: "req_url example_submission = DEFAULT_API_URL @ ''/submit''"
    by (simp add: example_submission_def submit_request_def)
  have hw: "http ?wh [questions_request] example_submission = Responds html_response"
    "http ?wt [questions_request] example_submission = Raises (Timeout ''Read timed out.'')"
    by (simp_all add: scoring_world_def su)
  have rs: "raise_for_status html_response = Inl html_error"
    by (simp add: raise_for_status_def html_response_def html_error_def show_nat_examples)
  have sh: "submit_answers ?wh DEFAULT_API_URL ''student'' (code_url (SPACE_ID env_no_token))
              (answers_payload after_example_fetched) (reqs after_example_fetched)
            = ([questions_request, example_submission], Inl html_error)"
    by (simp add: submit_answers_eq p cu hw rs example_submission_def[symmetric])
  have st: "submit_answers ?wt DEFAULT_API_URL ''student'' (code_url (SPACE_ID env_no_token))
              (answers_payload after_example_fetched) (reqs after_example_fetched)
            = ([questions_request, example_submission], Inl (Timeout ''Read timed out.''))"
    by (simp add: submit_answers_eq p cu hw example_submission_def[symmetric])
  note A = submission_failure_classified[of world_timeout "''422 Client Error''" detail_response
      "[(''detail'', PStr ''Invalid answers'')]" "PStr ''Invalid answers''"
      "ValueError ''bad value''" "Timeout ''Read timed out.''" "RequestException ''Read timed out.''"]
  note B = submission_failure_classified[of world_timeout "''500 Server Error''"
      long_error_response "[(''error'', PStr (replicate 600 (CHR ''x'')))]"]
  note C = submission_failure_classified[of ?wh
      "''500 Server Error: Internal Server Error for url: '' @ DEFAULT_API_URL @ ''/submit''"
      html_response _ _ _ _ _ "[questions_request]" "[task_1, item_without_id]" env_no_token
      after_example_fetched "''student''" "[questions_request, example_submission]"
      "Inl html_error"]
  note D = submission_failure_classified[of ?wt "''Read timed out.''"
      html_response _ _ _ _ _ "[questions_request]" "[task_1, item_without_id]" env_no_token
      after_example_fetched "''student''" "[questions_request, example_submission]"
      "Inl (Timeout ''Read timed out.'')"]
  have k1: "failure_status world_timeout (HTTPError ''422 Client Error'' detail_response) =
     ''Submission Failed: Server responded with status 422. Detail: Invalid answers''"
    using A j by (simp add: show_nat_examples)
  have k2: "failure_status world_timeout (HTTPError ''500 Server Error'' long_error_response) =
       ''Submission Failed: Server responded with status 500. Detail: '' @ long_error_body"
    using B j by (simp add: show_nat_examples)
  have k3: "failure_status ?wh html_error =
       ''Submission Failed: Server responded with status 500. Response: <html>Internal Server Error</html>''"
    using C j by (simp add: show_nat_examples html_error_def)
  have k3b: "failure_status world_timeout html_error = failure_status ?wh html_error"
    by (simp add: html_error_def http_error_detail_cases j)
  have k4: "failure_status world_timeout (ValueError ''bad value'') =
       ''An unexpected error occurred during submission: bad value''"
    using A c by simp
  have k5: "failure_status world_timeout (Timeout ''Read timed out.'')
       \<noteq> failure_status world_timeout (RequestException ''Read timed out.'')"
    using A c by blast
  have k6: "run_and_submit_all ?wh env_no_token (Some ''student'') =
       Inr \<lparr>status = failure_status ?wh html_error,
            results_df = Some (results_log after_example_fetched),
            requests_made = [questions_request, example_submission],
            loop_events = events after_example_fetched\<rparr>"
    using C fh l[of ?wh] p(1) sh by auto
  have k7: "run_and_submit_all ?wt env_no_token (Some ''student'') =
       Inr \<lparr>status = failure_status ?wt (Timeout ''Read timed out.''),
            results_df = Some (results_log after_example_fetched),
            requests_made = [questions_request, example_submission],
            loop_events = events after_example_fetched\<rparr>"
    using D ft l[of ?wt] p(1) st by auto
  show ?thesis
    using k1 k2 k3 k3b k4 k5 k6 k7 by (simp add: p)
qed

end
